theory Spec2Isabelle
  imports Complex_Main "HOL-Library.Multiset" "HOL-Library.List_Lexorder" "HOL-Library.Char_ord"
begin

section \<open>Python values\<close>

text \<open>
  The pipeline compares query results cell by cell. A cell is whatever the database
  driver or the JSON reader hands over, so the model has one type of Python values.

  A float is carried by the rational it denotes, or by one of the three special values;
  rounding to 53 bits is not modelled, the overflow threshold of the conversions is.
  Strings are lists of 8-bit characters and stand for ASCII text.
\<close>

datatype pyfloat = Fin rat | PosInf | NegInf | NaN

datatype iso_attr = NoIsoformat | IsoRaises | IsoText string

datatype pyval =
    PNone
  | PBool bool
  | PInt int
  | PFloat pyfloat
  | PStr string
  | PDecimal pyfloat
  | PBytes string
  | PObject string string iso_attr
  | PDict "(string \<times> pyval) list"
  | PList "pyval list"
  | PTuple "pyval list"

text \<open>
  \<open>PDecimal f\<close> is a \<open>decimal.Decimal\<close> whose conversion \<open>float(x)\<close> gives \<open>f\<close>.
  \<open>PBytes s\<close> stands for \<open>bytes\<close>, \<open>bytearray\<close> and \<open>memoryview\<close> alike.
  \<open>PObject t s i\<close> is any other object: its type name \<open>t\<close>, its state \<open>s\<close> and what its
  \<open>isoformat\<close> attribute does. A dict is its list of items in insertion order.
\<close>

datatype py_error =
    OverflowError
  | SystemExit string
  | ConnectionError

subsection \<open>Floats\<close>

definition float_max_bound :: rat where
  "float_max_bound = 2 ^ 1024 - 2 ^ 970"

definition float_of_rat :: "rat \<Rightarrow> pyfloat" where
  "float_of_rat q =
     (if float_max_bound \<le> q then PosInf
      else if q \<le> - float_max_bound then NegInf
      else Fin q)"

definition float_of_int :: "int \<Rightarrow> py_error + pyfloat" where
  "float_of_int n =
     (if float_max_bound \<le> \<bar>of_int n\<bar> then Inl OverflowError else Inr (Fin (of_int n)))"

fun float_eq :: "pyfloat \<Rightarrow> pyfloat \<Rightarrow> bool" where
  "float_eq (Fin x) (Fin y) = (x = y)"
| "float_eq PosInf PosInf = True"
| "float_eq NegInf NegInf = True"
| "float_eq _ _ = False"

fun is_infinite :: "pyfloat \<Rightarrow> bool" where
  "is_infinite PosInf = True"
| "is_infinite NegInf = True"
| "is_infinite _ = False"

definition tol :: rat where
  "tol = 1 / 10 ^ 9"

fun isclose :: "pyfloat \<Rightarrow> pyfloat \<Rightarrow> bool" where
  "isclose a b =
     (if float_eq a b then True
      else if is_infinite a \<or> is_infinite b then False
      else (case (a, b) of
              (Fin x, Fin y) \<Rightarrow>
                 \<bar>y - x\<bar> \<le> \<bar>tol * y\<bar> \<or> \<bar>y - x\<bar> \<le> \<bar>tol * x\<bar> \<or> \<bar>y - x\<bar> \<le> tol
            | _ \<Rightarrow> False))"

subsection \<open>Strings\<close>

definition is_space :: "char \<Rightarrow> bool" where
  "is_space c = (let n = of_char c :: nat in (9 \<le> n \<and> n \<le> 13) \<or> (28 \<le> n \<and> n \<le> 32))"

definition is_digit :: "char \<Rightarrow> bool" where
  "is_digit c = (let n = of_char c :: nat in 48 \<le> n \<and> n \<le> 57)"

definition strip :: "string \<Rightarrow> string" where
  "strip s = rev (dropWhile is_space (rev (dropWhile is_space s)))"

definition isdigit :: "string \<Rightarrow> bool" where
  "isdigit s = (s \<noteq> [] \<and> list_all is_digit s)"

definition digit_val :: "char \<Rightarrow> nat" where
  "digit_val c = of_char c - 48"

definition nat_of_digits :: "string \<Rightarrow> nat" where
  "nat_of_digits s = foldl (\<lambda>acc c. 10 * acc + digit_val c) 0 s"

definition lower_char :: "char \<Rightarrow> char" where
  "lower_char c = (let n = of_char c :: nat in if 65 \<le> n \<and> n \<le> 90 then char_of (n + 32) else c)"

definition lower :: "string \<Rightarrow> string" where
  "lower s = map lower_char s"

text \<open>
  \<open>float(s)\<close> on a string, after the grammar of the language reference: an optional
  sign, then \<open>inf\<close>, \<open>infinity\<close> or \<open>nan\<close> in any case, or a decimal number with an
  optional fraction and exponent, where single underscores may separate digits.
  \<open>None\<close> is the \<open>ValueError\<close>.
\<close>

fun valid_digitpart_from :: "bool \<Rightarrow> string \<Rightarrow> bool" where
  "valid_digitpart_from prev_digit [] = prev_digit"
| "valid_digitpart_from prev_digit (c # cs) =
     (if is_digit c then valid_digitpart_from True cs
      else if c = CHR ''_'' \<and> prev_digit then (cs \<noteq> [] \<and> is_digit (hd cs) \<and> valid_digitpart_from False cs)
      else False)"

definition valid_digitpart :: "string \<Rightarrow> bool" where
  "valid_digitpart s = (s \<noteq> [] \<and> valid_digitpart_from False s)"

definition digits_of :: "string \<Rightarrow> string" where
  "digits_of s = filter is_digit s"

definition split_at :: "char \<Rightarrow> string \<Rightarrow> string \<times> string option" where
  "split_at c s =
     (let a = takeWhile (\<lambda>x. x \<noteq> c) s; b = dropWhile (\<lambda>x. x \<noteq> c) s
      in (a, if b = [] then None else Some (tl b)))"

definition parse_exponent :: "string \<Rightarrow> int option" where
  "parse_exponent s =
     (case s of
        [] \<Rightarrow> None
      | c # cs \<Rightarrow>
          if c = CHR ''-'' then (if valid_digitpart cs then Some (- int (nat_of_digits (digits_of cs))) else None)
          else if c = CHR ''+'' then (if valid_digitpart cs then Some (int (nat_of_digits (digits_of cs))) else None)
          else (if valid_digitpart s then Some (int (nat_of_digits (digits_of s))) else None))"

definition parse_mantissa :: "string \<Rightarrow> rat option" where
  "parse_mantissa s =
     (case split_at CHR ''.'' s of
        (ip, None) \<Rightarrow> if valid_digitpart ip then Some (of_nat (nat_of_digits (digits_of ip))) else None
      | (ip, Some fp) \<Rightarrow>
          if (ip = [] \<or> valid_digitpart ip) \<and> (fp = [] \<or> valid_digitpart fp) \<and> \<not> (ip = [] \<and> fp = [])
          then Some (of_nat (nat_of_digits (digits_of ip))
                     + of_nat (nat_of_digits (digits_of fp)) / 10 ^ length (digits_of fp))
          else None)"

definition pow10 :: "int \<Rightarrow> rat" where
  "pow10 e = (if 0 \<le> e then 10 ^ nat e else 1 / 10 ^ nat (- e))"

definition parse_unsigned_float :: "string \<Rightarrow> pyfloat option" where
  "parse_unsigned_float s =
     (if s = ''inf'' \<or> s = ''infinity'' then Some PosInf
      else if s = ''nan'' then Some NaN
      else (case split_at CHR ''e'' s of
              (m, None) \<Rightarrow> map_option float_of_rat (parse_mantissa m)
            | (m, Some x) \<Rightarrow>
                (case (parse_mantissa m, parse_exponent x) of
                   (Some q, Some e) \<Rightarrow> Some (float_of_rat (q * pow10 e))
                 | _ \<Rightarrow> None)))"

fun float_neg :: "pyfloat \<Rightarrow> pyfloat" where
  "float_neg (Fin q) = Fin (- q)"
| "float_neg PosInf = NegInf"
| "float_neg NegInf = PosInf"
| "float_neg NaN = NaN"

definition float_of_str :: "string \<Rightarrow> pyfloat option" where
  "float_of_str x =
     (case lower (strip x) of
        [] \<Rightarrow> None
      | c # cs \<Rightarrow>
          if c = CHR ''-'' then map_option float_neg (parse_unsigned_float cs)
          else if c = CHR ''+'' then parse_unsigned_float cs
          else parse_unsigned_float (c # cs))"

text \<open>\<open>int(s)\<close> on a string the caller has checked to be digits with an optional minus.\<close>

definition int_of_str :: "string \<Rightarrow> int" where
  "int_of_str s =
     (case s of
        [] \<Rightarrow> 0
      | c # cs \<Rightarrow> if c = CHR ''-'' then - int (nat_of_digits cs) else int (nat_of_digits s))"

section \<open>Scalar equivalence\<close>

text \<open>
  \<open>_num\<close> of \<open>duckdb_pipeline.py\<close>. The conversion \<open>float(x)\<close> of an int is outside
  any \<open>try\<close>, so its \<open>OverflowError\<close> leaves the function; on the string path every
  exception is caught and gives \<open>None\<close>.
\<close>

definition startswith_minus :: "string \<Rightarrow> bool" where
  "startswith_minus s = (case s of [] \<Rightarrow> False | c # _ \<Rightarrow> c = CHR ''-'')"

fun num :: "pyval \<Rightarrow> py_error + pyfloat option" where
  "num (PBool b) = Inr None"
| "num (PInt n) = (case float_of_int n of Inl e \<Rightarrow> Inl e | Inr f \<Rightarrow> Inr (Some f))"
| "num (PFloat f) = Inr (Some f)"
| "num (PDecimal f) = Inr (Some f)"
| "num (PStr x) =
     (let s = strip x in
      if s = [] then Inr None
      else if isdigit s \<or> (startswith_minus s \<and> isdigit (tl s))
      then (case float_of_int (int_of_str s) of Inl e \<Rightarrow> Inr None | Inr f \<Rightarrow> Inr (Some f))
      else Inr (float_of_str s))"
| "num _ = Inr None"

text \<open>
  Python's \<open>==\<close>. Booleans, ints, floats and decimals compare by value across types
  (\<open>True == 1\<close>, \<open>1 == 1.0\<close>), and \<open>nan\<close> equals nothing. Containers compare their
  elements with \<open>==\<close>; the identity shortcut Python takes on elements is not modelled.
\<close>

fun py_num_eq :: "pyfloat \<Rightarrow> pyval \<Rightarrow> bool" where
  "py_num_eq f (PBool b) = float_eq f (Fin (of_bool b))"
| "py_num_eq f (PInt n) = float_eq f (Fin (of_int n))"
| "py_num_eq f (PFloat g) = float_eq f g"
| "py_num_eq f (PDecimal g) = float_eq f g"
| "py_num_eq f _ = False"

fun py_eq :: "pyval \<Rightarrow> pyval \<Rightarrow> bool"
  and py_eq_list :: "pyval list \<Rightarrow> pyval list \<Rightarrow> bool"
  and py_sub_dict :: "(string \<times> pyval) list \<Rightarrow> (string \<times> pyval) list \<Rightarrow> bool" where
  "py_eq PNone b = (b = PNone)"
| "py_eq (PBool x) b = py_num_eq (Fin (of_bool x)) b"
| "py_eq (PInt n) b = py_num_eq (Fin (of_int n)) b"
| "py_eq (PFloat f) b = py_num_eq f b"
| "py_eq (PDecimal f) b = py_num_eq f b"
| "py_eq (PStr s) b = (b = PStr s)"
| "py_eq (PBytes s) b = (b = PBytes s)"
| "py_eq (PObject t s i) b = (b = PObject t s i)"
| "py_eq (PList xs) b = (case b of PList ys \<Rightarrow> py_eq_list xs ys | _ \<Rightarrow> False)"
| "py_eq (PTuple xs) b = (case b of PTuple ys \<Rightarrow> py_eq_list xs ys | _ \<Rightarrow> False)"
| "py_eq (PDict d) b =
     (case b of PDict e \<Rightarrow> length d = length e \<and> py_sub_dict d e | _ \<Rightarrow> False)"
| "py_eq_list [] ys = (ys = [])"
| "py_eq_list (x # xs) ys = (case ys of [] \<Rightarrow> False | y # ys' \<Rightarrow> py_eq x y \<and> py_eq_list xs ys')"
| "py_sub_dict [] e = True"
| "py_sub_dict ((k, v) # d) e =
     ((case map_of e k of None \<Rightarrow> False | Some w \<Rightarrow> py_eq v w) \<and> py_sub_dict d e)"

definition dict_get :: "(string \<times> pyval) list \<Rightarrow> string \<Rightarrow> pyval" where
  "dict_get d k = (case map_of d k of None \<Rightarrow> PNone | Some v \<Rightarrow> v)"

definition bytes_tag :: "pyval \<Rightarrow> pyval" where
  "bytes_tag a =
     (case a of
        PDict d \<Rightarrow>
          if py_eq (dict_get d ''__type__'') (PStr ''bytes'')
          then PTuple [PStr ''bytes'', dict_get d ''base64'']
          else a
      | _ \<Rightarrow> a)"

fun is_tuple :: "pyval \<Rightarrow> bool" where
  "is_tuple (PTuple _) = True"
| "is_tuple _ = False"

definition scalar_equal :: "pyval \<Rightarrow> pyval \<Rightarrow> py_error + bool" where
  "scalar_equal a0 b0 =
     (if a0 = PNone \<and> b0 = PNone then Inr True
      else
        let a = bytes_tag a0; b = bytes_tag b0 in
        if is_tuple a \<or> is_tuple b then Inr (py_eq a b)
        else (case num a of
                Inl e \<Rightarrow> Inl e
              | Inr na \<Rightarrow>
                  (case num b of
                     Inl e \<Rightarrow> Inl e
                   | Inr nb \<Rightarrow>
                       (case (na, nb) of
                          (Some x, Some y) \<Rightarrow> Inr (isclose x y)
                        | _ \<Rightarrow> Inr (py_eq a b)))))"

section \<open>Canonical values\<close>

text \<open>
  Three library functions the pipeline calls are parameters of the model: \<open>repr\<close>,
  \<open>base64.b64encode\<close> (followed by the ASCII decoding) and \<open>json.dumps\<close> with the
  options \<open>_stable_key\<close> passes. Every theorem below holds for any choice of them.
\<close>

record pylib =
  py_repr :: "pyval \<Rightarrow> string"
  b64encode :: "string \<Rightarrow> string"
  json_dumps :: "pyval \<Rightarrow> string"

fun type_name :: "pyval \<Rightarrow> string" where
  "type_name PNone = ''NoneType''"
| "type_name (PBool _) = ''bool''"
| "type_name (PInt _) = ''int''"
| "type_name (PFloat _) = ''float''"
| "type_name (PStr _) = ''str''"
| "type_name (PDecimal _) = ''Decimal''"
| "type_name (PBytes _) = ''bytes''"
| "type_name (PObject t _ _) = t"
| "type_name (PDict _) = ''dict''"
| "type_name (PList _) = ''list''"
| "type_name (PTuple _) = ''tuple''"

definition repr_fallback :: "pylib \<Rightarrow> pyval \<Rightarrow> pyval" where
  "repr_fallback lib x =
     PDict [(''__type__'', PStr ''py_repr''), (''py_type'', PStr (type_name x)),
            (''repr'', PStr (py_repr lib x))]"

text \<open>\<open>_jsonable_scalar\<close> of \<open>duckdb_pipeline.py\<close>, the canonicalizer.\<close>

fun jsonable_scalar :: "pylib \<Rightarrow> pyval \<Rightarrow> pyval" where
  "jsonable_scalar lib PNone = PNone"
| "jsonable_scalar lib (PBool b) = PBool b"
| "jsonable_scalar lib (PInt n) = PInt n"
| "jsonable_scalar lib (PFloat f) = PFloat f"
| "jsonable_scalar lib (PStr s) = PStr s"
| "jsonable_scalar lib (PDecimal f) = PFloat f"
| "jsonable_scalar lib (PBytes raw) =
     PDict [(''__type__'', PStr ''bytes''), (''base64'', PStr (b64encode lib raw))]"
| "jsonable_scalar lib (PObject t s (IsoText r)) = PStr r"
| "jsonable_scalar lib x = repr_fallback lib x"

definition jsonable_rows :: "pylib \<Rightarrow> pyval list list \<Rightarrow> pyval list list" where
  "jsonable_rows lib rows = map (map (jsonable_scalar lib)) rows"

subsection \<open>A reference runtime\<close>

text \<open>
  To run the model on examples, one concrete runtime: base64 as RFC 4648 defines it, and
  a JSON printer with sorted keys and the separators \<open>,\<close> and \<open>:\<close>. The printer does
  not escape strings and prints a float that is not a whole number as a fraction; the
  repr of an object is its state text. No theorem depends on these choices.
\<close>

definition b64_alphabet :: string where
  "b64_alphabet = ''ABCDEFGHIJKLMNOPQRSTUVWXYZabcdefghijklmnopqrstuvwxyz0123456789+/''"

definition b64_char :: "nat \<Rightarrow> char" where
  "b64_char n = b64_alphabet ! (n mod 64)"

fun b64_groups :: "nat list \<Rightarrow> string" where
  "b64_groups [] = []"
| "b64_groups [a] = [b64_char (a div 4), b64_char ((a mod 4) * 16), CHR ''='', CHR ''='']"
| "b64_groups [a, b] =
     [b64_char (a div 4), b64_char ((a mod 4) * 16 + b div 16), b64_char ((b mod 16) * 4), CHR ''='']"
| "b64_groups (a # b # c # rest) =
     [b64_char (a div 4), b64_char ((a mod 4) * 16 + b div 16),
      b64_char ((b mod 16) * 4 + c div 64), b64_char (c mod 64)] @ b64_groups rest"

definition ref_b64encode :: "string \<Rightarrow> string" where
  "ref_b64encode raw = b64_groups (map of_char raw)"

definition digit_char :: "nat \<Rightarrow> char" where
  "digit_char n = ''0123456789'' ! (n mod 10)"

fun show_nat :: "nat \<Rightarrow> string" where
  "show_nat n = (if n < 10 then [digit_char n] else show_nat (n div 10) @ [digit_char (n mod 10)])"

declare show_nat.simps [simp del]

definition show_int :: "int \<Rightarrow> string" where
  "show_int i = (if i < 0 then CHR ''-'' # show_nat (nat (- i)) else show_nat (nat i))"

definition show_float :: "pyfloat \<Rightarrow> string" where
  "show_float f =
     (case f of
        NaN \<Rightarrow> ''NaN''
      | PosInf \<Rightarrow> ''Infinity''
      | NegInf \<Rightarrow> ''-Infinity''
      | Fin q \<Rightarrow>
          (case quotient_of q of
             (n, d) \<Rightarrow> if d = 1 then show_int n @ ''.0'' else show_int n @ ''/'' @ show_int d))"

definition quoted :: "string \<Rightarrow> string" where
  "quoted s = CHR 0x22 # s @ [CHR 0x22]"

fun join_comma :: "string list \<Rightarrow> string" where
  "join_comma [] = []"
| "join_comma [x] = x"
| "join_comma (x # y # zs) = x @ CHR '','' # join_comma (y # zs)"

fun ref_dumps :: "pyval \<Rightarrow> string"
  and ref_dumps_list :: "pyval list \<Rightarrow> string list"
  and ref_dumps_items :: "(string \<times> pyval) list \<Rightarrow> (string \<times> string) list" where
  "ref_dumps PNone = ''null''"
| "ref_dumps (PBool b) = (if b then ''true'' else ''false'')"
| "ref_dumps (PInt n) = show_int n"
| "ref_dumps (PFloat f) = show_float f"
| "ref_dumps (PStr s) = quoted s"
| "ref_dumps (PDecimal f) = ''<Decimal>''"
| "ref_dumps (PBytes raw) = ''<bytes>''"
| "ref_dumps (PObject t s i) = ''<object>''"
| "ref_dumps (PList xs) = CHR ''['' # join_comma (ref_dumps_list xs) @ '']''"
| "ref_dumps (PTuple xs) = CHR ''['' # join_comma (ref_dumps_list xs) @ '']''"
| "ref_dumps (PDict d) =
     CHR ''{'' # join_comma (map (\<lambda>(k, v). quoted k @ CHR '':'' # v) (sort_key fst (ref_dumps_items d))) @ ''}''"
| "ref_dumps_list [] = []"
| "ref_dumps_list (x # xs) = ref_dumps x # ref_dumps_list xs"
| "ref_dumps_items [] = []"
| "ref_dumps_items ((k, v) # d) = (k, ref_dumps v) # ref_dumps_items d"

definition ref_repr :: "pyval \<Rightarrow> string" where
  "ref_repr x = (case x of PObject t s i \<Rightarrow> s | _ \<Rightarrow> ref_dumps x)"

definition ref_lib :: pylib where
  "ref_lib = \<lparr>py_repr = ref_repr, b64encode = ref_b64encode, json_dumps = ref_dumps\<rparr>"

section \<open>Row comparison\<close>

definition stable_key :: "pylib \<Rightarrow> pyval \<Rightarrow> string" where
  "stable_key lib x = json_dumps lib x"

text \<open>
  A \<open>collections.Counter\<close> over strings: the items of the dict in insertion order.
  Counting an element adds one to its entry or appends a new entry.
\<close>

type_synonym counter = "(string \<times> nat) list"

fun counter_add :: "string \<Rightarrow> counter \<Rightarrow> counter" where
  "counter_add k [] = [(k, 1)]"
| "counter_add k ((k', n) # c) = (if k = k' then (k', n + 1) # c else (k', n) # counter_add k c)"

definition Counter :: "string list \<Rightarrow> counter" where
  "Counter ks = foldl (\<lambda>c k. counter_add k c) [] ks"

definition counter_get :: "counter \<Rightarrow> string \<Rightarrow> nat" where
  "counter_get c k = (case map_of c k of None \<Rightarrow> 0 | Some n \<Rightarrow> n)"

text \<open>Equality of two counters: all counts agree, a missing element counting as zero.\<close>

definition counter_eq :: "counter \<Rightarrow> counter \<Rightarrow> bool" where
  "counter_eq c d = list_all (\<lambda>k. counter_get c k = counter_get d k) (map fst c @ map fst d)"

definition row_key :: "pylib \<Rightarrow> pyval list \<Rightarrow> string" where
  "row_key lib row = stable_key lib (PList (map (jsonable_scalar lib) row))"

definition rows_as_counter :: "pylib \<Rightarrow> pyval list list \<Rightarrow> counter" where
  "rows_as_counter lib rows = Counter (map (row_key lib) rows)"

text \<open>
  The loop of \<open>rows_equal_unordered\<close> that turns the expected rows into tuples; \<open>None\<close>
  is its early \<open>return False\<close> on a row that is not a list.
\<close>

fun exp_rows :: "pyval list \<Rightarrow> pyval list list option" where
  "exp_rows [] = Some []"
| "exp_rows (r # rs) =
     (case r of
        PList cells \<Rightarrow> (case exp_rows rs of None \<Rightarrow> None | Some t \<Rightarrow> Some (cells # t))
      | _ \<Rightarrow> None)"

definition rows_equal_unordered :: "pylib \<Rightarrow> pyval \<Rightarrow> pyval list list \<Rightarrow> bool" where
  "rows_equal_unordered lib expected got =
     (case expected of
        PList rs \<Rightarrow>
          (case exp_rows rs of
             None \<Rightarrow> False
           | Some er \<Rightarrow> counter_eq (rows_as_counter lib er) (rows_as_counter lib got))
      | _ \<Rightarrow> False)"

section \<open>SQL rewrites\<close>

text \<open>
  \<open>rewrite_for_duckdb\<close> works with \<open>str.replace\<close>, the \<open>in\<close> test on strings and
  \<open>re.sub\<close>. The regular expressions are modelled by a backtracking matcher over the
  constructs the patterns of the repository use; a match is tried at each position from
  left to right and the alternatives of a position in the order of Python's engine, so
  the first result is the match Python takes.
\<close>

fun is_prefix :: "string \<Rightarrow> string \<Rightarrow> bool" where
  "is_prefix [] s = True"
| "is_prefix (c # cs) [] = False"
| "is_prefix (c # cs) (d # ds) = (c = d \<and> is_prefix cs ds)"

fun contains :: "string \<Rightarrow> string \<Rightarrow> bool" where
  "contains sub [] = (sub = [])"
| "contains sub (c # cs) = (is_prefix sub (c # cs) \<or> contains sub cs)"

text \<open>\<open>s.replace(old, new)\<close> for a non-empty \<open>old\<close>.\<close>

function str_replace :: "string \<Rightarrow> string \<Rightarrow> string \<Rightarrow> string" where
  "str_replace old new s =
     (if s = [] \<or> old = [] then s
      else if is_prefix old s then new @ str_replace old new (drop (length old) s)
      else hd s # str_replace old new (tl s))"
  by pat_completeness auto
termination
  by (relation "measure (\<lambda>(old, new, s). length s)") auto

declare str_replace.simps [simp del]

definition is_word_char :: "char \<Rightarrow> bool" where
  "is_word_char c =
     (let n = of_char c :: nat
      in (48 \<le> n \<and> n \<le> 57) \<or> (65 \<le> n \<and> n \<le> 90) \<or> (97 \<le> n \<and> n \<le> 122) \<or> n = 95)"

definition is_ident_start :: "char \<Rightarrow> bool" where
  "is_ident_start c =
     (let n = of_char c :: nat in (65 \<le> n \<and> n \<le> 90) \<or> (97 \<le> n \<and> n \<le> 122) \<or> n = 95)"

definition not_rparen :: "char \<Rightarrow> bool" where
  "not_rparen c = (c \<noteq> CHR '')'')"

datatype rx =
    Lit char
  | CharSet "char \<Rightarrow> bool"
  | Seq rx rx
  | Alt rx rx
  | Star rx
  | LazyStar rx
  | Opt rx
  | Group nat rx
  | WordB

type_synonym groups = "(nat \<times> nat \<times> nat) list"

definition char_matches :: "bool \<Rightarrow> char \<Rightarrow> char \<Rightarrow> bool" where
  "char_matches ic c x = (if ic then lower_char c = lower_char x else c = x)"

definition upper_char :: "char \<Rightarrow> char" where
  "upper_char c = (let n = of_char c :: nat in if 97 \<le> n \<and> n \<le> 122 then char_of (n - 32) else c)"

definition set_matches :: "bool \<Rightarrow> (char \<Rightarrow> bool) \<Rightarrow> char \<Rightarrow> bool" where
  "set_matches ic p x = (p x \<or> (ic \<and> (p (lower_char x) \<or> p (upper_char x))))"

definition word_at :: "string \<Rightarrow> nat \<Rightarrow> bool" where
  "word_at s i = (i < length s \<and> is_word_char (s ! i))"

definition at_boundary :: "string \<Rightarrow> nat \<Rightarrow> bool" where
  "at_boundary s i = ((0 < i \<and> word_at s (i - 1)) \<noteq> word_at s i)"

text \<open>
  \<open>ends ic r s i g\<close>: the ways \<open>r\<close> matches \<open>s\<close> from position \<open>i\<close>, each with the
  position after the match and the spans of the groups, in the order a backtracking
  engine tries them. \<open>ic\<close> is the flag \<open>re.IGNORECASE\<close>.
\<close>

function ends :: "bool \<Rightarrow> rx \<Rightarrow> string \<Rightarrow> nat \<Rightarrow> groups \<Rightarrow> (nat \<times> groups) list" where
  "ends ic (Lit c) s i g = (if i < length s \<and> char_matches ic c (s ! i) then [(i + 1, g)] else [])"
| "ends ic (CharSet p) s i g = (if i < length s \<and> set_matches ic p (s ! i) then [(i + 1, g)] else [])"
| "ends ic (Seq a b) s i g = concat (map (\<lambda>(j, g'). ends ic b s j g') (ends ic a s i g))"
| "ends ic (Alt a b) s i g = ends ic a s i g @ ends ic b s i g"
| "ends ic (Star a) s i g =
     concat (map (\<lambda>(j, g'). if i < j \<and> j \<le> length s then ends ic (Star a) s j g' else [])
                 (ends ic a s i g)) @ [(i, g)]"
| "ends ic (LazyStar a) s i g =
     (i, g) # concat (map (\<lambda>(j, g'). if i < j \<and> j \<le> length s then ends ic (LazyStar a) s j g' else [])
                          (ends ic a s i g))"
| "ends ic (Opt a) s i g = ends ic a s i g @ [(i, g)]"
| "ends ic (Group n a) s i g = map (\<lambda>(j, g'). (j, (n, i, j) # g')) (ends ic a s i g)"
| "ends ic WordB s i g = (if at_boundary s i then [(i, g)] else [])"
  by pat_completeness auto
termination
  by (relation "measures [\<lambda>(ic, r, s, i, g). size r, \<lambda>(ic, r, s, i, g). length s - i]") auto

fun rx_str :: "string \<Rightarrow> rx \<Rightarrow> rx" where
  "rx_str [] r = r"
| "rx_str (c # cs) r = Seq (Lit c) (rx_str cs r)"

text \<open>
  A replacement template, as \<open>re\<close> parses it: a backslash followed by a backslash is
  one literal backslash, a backslash followed by a digit from 1 to 9 refers to a group
  (two digits when a second one follows), any other character stands for itself.
  The templates of the repository contain no other escape and no octal character code.
\<close>

datatype tpiece = TLit char | TGroup nat

definition bs :: char where
  "bs = CHR 0x5C"

fun parse_template :: "string \<Rightarrow> tpiece list" where
  "parse_template [] = []"
| "parse_template [c] = [TLit c]"
| "parse_template (c # d # cs) =
     (if c = bs then
        (if d = bs then TLit bs # parse_template cs
         else if is_digit d \<and> d \<noteq> CHR ''0'' then
           (case cs of
              e # cs' \<Rightarrow>
                if is_digit e then TGroup (10 * digit_val d + digit_val e) # parse_template cs'
                else TGroup (digit_val d) # parse_template cs
            | [] \<Rightarrow> [TGroup (digit_val d)])
         else TLit c # TLit d # parse_template cs)
      else TLit c # parse_template (d # cs))"

definition group_text :: "string \<Rightarrow> groups \<Rightarrow> nat \<Rightarrow> string" where
  "group_text s g n = (case map_of g n of None \<Rightarrow> [] | Some (i, j) \<Rightarrow> take (j - i) (drop i s))"

fun expand :: "tpiece list \<Rightarrow> string \<Rightarrow> groups \<Rightarrow> string" where
  "expand [] s g = []"
| "expand (TLit c # t) s g = c # expand t s g"
| "expand (TGroup n # t) s g = group_text s g n @ expand t s g"

text \<open>
  \<open>re.sub\<close>: the leftmost match is replaced and the search goes on after it. None of
  the patterns of this file matches the empty string; an empty match is replaced and
  the next character copied.
\<close>

function sub_from :: "bool \<Rightarrow> rx \<Rightarrow> tpiece list \<Rightarrow> string \<Rightarrow> nat \<Rightarrow> string" where
  "sub_from ic r t s i =
     (if length s < i then []
      else (case ends ic r s i [] of
              [] \<Rightarrow> (if i < length s then s ! i # sub_from ic r t s (i + 1) else [])
            | (j, g) # _ \<Rightarrow>
                if i < j then expand t s g @ sub_from ic r t s j
                else expand t s g @ (if i < length s then s ! i # sub_from ic r t s (i + 1) else [])))"
  by pat_completeness auto
termination
  by (relation "measure (\<lambda>(ic, r, t, s, i). length s + 1 - i)") auto

declare sub_from.simps [simp del]

text \<open>\<open>finditer\<close>: the matches from left to right, each its start, its end and its groups.\<close>

function find_from :: "bool \<Rightarrow> rx \<Rightarrow> string \<Rightarrow> nat \<Rightarrow> (nat \<times> nat \<times> groups) list" where
  "find_from ic r s i =
     (if length s < i then []
      else (case ends ic r s i [] of
              [] \<Rightarrow> find_from ic r s (i + 1)
            | (j, g) # _ \<Rightarrow>
                (i, j, g) # (if i < j then find_from ic r s j else find_from ic r s (i + 1))))"
  by pat_completeness auto
termination
  by (relation "measure (\<lambda>(ic, r, s, i). length s + 1 - i)") auto

declare find_from.simps [simp del]

definition re_sub :: "bool \<Rightarrow> rx \<Rightarrow> string \<Rightarrow> string \<Rightarrow> string" where
  "re_sub ic r template s = sub_from ic r (parse_template template) s 0"

definition apostrophe :: char where
  "apostrophe = CHR 0x27"

text \<open>\<^verbatim>\<open>STRFTIME\(([^)]*?),\s*'%Y'\)\<close>\<close>

definition RE_STRFTIME_YEAR :: rx where
  "RE_STRFTIME_YEAR =
     rx_str ''STRFTIME(''
       (Seq (Group 1 (LazyStar (CharSet not_rparen)))
         (Seq (Lit CHR '','')
           (Seq (Star (CharSet is_space))
             (Seq (Lit apostrophe) (rx_str ''%Y'' (Seq (Lit apostrophe) (Lit CHR '')'')))))))"

text \<open>\<^verbatim>\<open>(CURRENT_TIMESTAMP)\s*-\s*([A-Za-z_][A-Za-z0-9_]*\.)?birthday\b\<close>\<close>

definition RE_BIRTHDAY :: rx where
  "RE_BIRTHDAY =
     Seq (Group 1 (rx_str ''CURRENT_TIMESTAM'' (Lit CHR ''P'')))
       (Seq (Star (CharSet is_space))
         (Seq (Lit CHR ''-'')
           (Seq (Star (CharSet is_space))
             (Seq (Opt (Group 2 (Seq (CharSet is_ident_start)
                                  (Seq (Star (CharSet is_word_char)) (Lit CHR ''.'')))))
               (rx_str ''birthday'' WordB)))))"

text \<open>\<^verbatim>\<open>\bSELECT\s+(t1\.)player_name\b\<close>\<close>

definition RE_PLAYER_NAME :: rx where
  "RE_PLAYER_NAME =
     Seq WordB (rx_str ''SELECT''
       (Seq (CharSet is_space) (Seq (Star (CharSet is_space))
         (Seq (Group 1 (rx_str ''t1'' (Lit CHR ''.''))) (rx_str ''player_name'' WordB)))))"

text \<open>\<^verbatim>\<open>\bSELECT\s+(teamInfo\.)team_long_name\b\<close>\<close>

definition RE_TEAM_LONG_NAME :: rx where
  "RE_TEAM_LONG_NAME =
     Seq WordB (rx_str ''SELECT''
       (Seq (CharSet is_space) (Seq (Star (CharSet is_space))
         (Seq (Group 1 (rx_str ''teamInfo'' (Lit CHR ''.''))) (rx_str ''team_long_name'' WordB)))))"

text \<open>
  The templates are raw string literals. The first has one backslash before the group
  number; the other three have two.
\<close>

definition TEMPLATE_STRFTIME_YEAR :: string where
  "TEMPLATE_STRFTIME_YEAR =
     ''CAST(STRFTIME('' @ [bs] @ ''1, '' @ [apostrophe] @ ''%Y'' @ [apostrophe] @ '') AS INTEGER)''"

definition TEMPLATE_BIRTHDAY :: string where
  "TEMPLATE_BIRTHDAY = [bs, bs] @ ''1 - CAST('' @ [bs, bs] @ ''2birthday AS TIMESTAMP)''"

definition TEMPLATE_PLAYER_NAME :: string where
  "TEMPLATE_PLAYER_NAME = ''SELECT ANY_VALUE('' @ [bs, bs] @ ''1player_name) AS player_name''"

definition TEMPLATE_TEAM_LONG_NAME :: string where
  "TEMPLATE_TEAM_LONG_NAME = ''SELECT ANY_VALUE('' @ [bs, bs] @ ''1team_long_name) AS team_long_name''"

definition rewrite_for_duckdb :: "string \<Rightarrow> string" where
  "rewrite_for_duckdb sql0 =
     (let sql1 = str_replace ''DATETIME()'' ''CURRENT_TIMESTAMP'' sql0;
          sql2 = (if contains ''STRFTIME'' sql1 \<and> contains ''%Y'' sql1 \<and> contains ''-'' sql1
                  then re_sub False RE_STRFTIME_YEAR TEMPLATE_STRFTIME_YEAR sql1 else sql1);
          sql3 = re_sub True RE_BIRTHDAY TEMPLATE_BIRTHDAY sql2;
          sql4 = re_sub True RE_PLAYER_NAME TEMPLATE_PLAYER_NAME sql3;
          sql5 = re_sub True RE_TEAM_LONG_NAME TEMPLATE_TEAM_LONG_NAME sql4
      in sql5)"

section \<open>Ordered comparison\<close>

text \<open>
  \<open>rows_equal\<close> and \<open>rows_equal_sqlite_duckdb\<close>. The loops return at the first pair
  that differs; an exception of \<open>scalar_equal\<close> met before that leaves the function.
\<close>

fun cells_equal :: "pyval list \<Rightarrow> pyval list \<Rightarrow> py_error + bool" where
  "cells_equal (x # xs) (y # ys) =
     (case scalar_equal x y of
        Inl e \<Rightarrow> Inl e
      | Inr ok \<Rightarrow> if ok then cells_equal xs ys else Inr False)"
| "cells_equal _ _ = Inr True"

fun rows_loop :: "pyval list \<Rightarrow> pyval list list \<Rightarrow> py_error + bool" where
  "rows_loop (erow # es) (grow # gs) =
     (case erow of
        PList ec \<Rightarrow>
          if length ec \<noteq> length grow then Inr False
          else (case cells_equal ec grow of
                  Inl e \<Rightarrow> Inl e
                | Inr ok \<Rightarrow> if ok then rows_loop es gs else Inr False)
      | _ \<Rightarrow> Inr False)"
| "rows_loop _ _ = Inr True"

definition rows_equal :: "pyval \<Rightarrow> pyval list list \<Rightarrow> py_error + bool" where
  "rows_equal expected got =
     (case expected of
        PList es \<Rightarrow> if length es \<noteq> length got then Inr False else rows_loop es got
      | _ \<Rightarrow> Inr False)"

fun tuple_rows_loop :: "pyval list list \<Rightarrow> pyval list list \<Rightarrow> py_error + bool" where
  "tuple_rows_loop (sr # ss) (dr # ds) =
     (if length sr \<noteq> length dr then Inr False
      else (case cells_equal sr dr of
              Inl e \<Rightarrow> Inl e
            | Inr ok \<Rightarrow> if ok then tuple_rows_loop ss ds else Inr False))"
| "tuple_rows_loop _ _ = Inr True"

definition rows_equal_sqlite_duckdb ::
  "pylib \<Rightarrow> pyval list list \<Rightarrow> pyval list list \<Rightarrow> bool \<Rightarrow> py_error + bool" where
  "rows_equal_sqlite_duckdb lib sqlite_rows duck_rows unord =
     (if \<not> unord then
        (if length sqlite_rows \<noteq> length duck_rows then Inr False
         else tuple_rows_loop sqlite_rows duck_rows)
      else Inr (counter_eq (rows_as_counter lib sqlite_rows) (rows_as_counter lib duck_rows)))"

definition canonicalize_jsonable_rows :: "pylib \<Rightarrow> pyval list list \<Rightarrow> pyval list list" where
  "canonicalize_jsonable_rows lib rows = sort_key (\<lambda>r. stable_key lib (PList r)) rows"

section \<open>The evaluation harness\<close>

record EvalStats =
  total :: nat
  correct :: nat
  exec_errors :: nat
  transpile_errors :: nat
  mismatches :: nat

definition EvalStats0 :: EvalStats where
  "EvalStats0 = \<lparr>total = 0, correct = 0, exec_errors = 0, transpile_errors = 0, mismatches = 0\<rparr>"

text \<open>The command line options \<open>_evaluate\<close> reads.\<close>

record eval_args =
  only_db :: string
  compare_to_gold :: bool
  unordered :: bool
  rewrite :: bool
  out_broken :: bool
  drop_columns :: bool
  out_compatible :: string

text \<open>
  What lies outside the program: the expected answers loaded from the gold files, the
  transpiler, and the two engines with the database files under a root directory.
  \<open>sqlglot_transpile\<close> and \<open>sqlite_run\<close> give \<open>None\<close> when they raise. Opening a DuckDB
  file stands outside the \<open>try\<close> of \<open>_evaluate\<close>, so \<open>duck_run\<close> tells a failure to
  connect from a failure to execute.
\<close>

datatype run_result = ConnectFails | ExecFails | Rows "pyval list list"

record eval_env =
  runtime :: pylib
  expected :: "string \<rightharpoonup> pyval"
  sqlglot_transpile :: "string \<Rightarrow> string list option"
  sqlite_is_file :: "string \<Rightarrow> bool"
  sqlite_run :: "string \<Rightarrow> string \<Rightarrow> pyval list list option"
  duck_is_file :: "string \<Rightarrow> string \<Rightarrow> bool"
  duck_run :: "string \<Rightarrow> string \<Rightarrow> string \<Rightarrow> run_result"

definition transpile_sql :: "eval_env \<Rightarrow> string \<Rightarrow> string option" where
  "transpile_sql env sqlite_sql =
     (case sqlglot_transpile env sqlite_sql of
        None \<Rightarrow> None
      | Some [] \<Rightarrow> Some sqlite_sql
      | Some (x # _) \<Rightarrow> Some x)"

text \<open>The parameters of one call of \<open>_evaluate\<close>.\<close>

record pass =
  duckdb_root :: string
  restrict_to :: "(string \<times> string) set option"
  record_compatible :: bool
  capture_records :: bool

text \<open>
  The state of one pass: the three results \<open>_evaluate\<close> builds, and the lines written to
  the compatibility log. \<open>trace\<close> is not a variable of the source: it notes, for every row
  that touches a counter, the key of the row and where it ended, and is what a statement
  about "the keys evaluated in a pass" speaks of.
\<close>

datatype outcome = TranspileError | ExecError | Correct | Mismatch

record eval_state =
  by_db :: "string \<rightharpoonup> EvalStats"
  compatible :: "(string \<times> string) set"
  compatible_records :: "(string \<times> string) \<rightharpoonup> pyval"
  written :: "pyval list"
  trace :: "((string \<times> string) \<times> outcome) list"

definition stats_of :: "eval_state \<Rightarrow> string \<Rightarrow> EvalStats" where
  "stats_of st db = (case by_db st db of None \<Rightarrow> EvalStats0 | Some s \<Rightarrow> s)"

text \<open>\<open>stats = by_db.setdefault(db_id, EvalStats())\<close> followed by updates of \<open>stats\<close>.\<close>

definition bump :: "(EvalStats \<Rightarrow> EvalStats) \<Rightarrow> string \<Rightarrow> eval_state \<Rightarrow> eval_state" where
  "bump f db st = st\<lparr>by_db := (by_db st)(db \<mapsto> f (stats_of st db))\<rparr>"

definition count_total :: "string \<Rightarrow> eval_state \<Rightarrow> eval_state" where
  "count_total db st = bump (\<lambda>s. s\<lparr>total := total s + 1\<rparr>) db st"

definition count_exec_error :: "string \<times> string \<Rightarrow> eval_state \<Rightarrow> eval_state" where
  "count_exec_error key st =
     (bump (\<lambda>s. s\<lparr>exec_errors := exec_errors s + 1\<rparr>) (fst key) st)
       \<lparr>trace := trace st @ [(key, ExecError)]\<rparr>"

definition count_transpile_error :: "string \<times> string \<Rightarrow> eval_state \<Rightarrow> eval_state" where
  "count_transpile_error key st =
     (bump (\<lambda>s. s\<lparr>transpile_errors := transpile_errors s + 1, exec_errors := exec_errors s + 1\<rparr>)
        (fst key) st)
       \<lparr>trace := trace st @ [(key, TranspileError)]\<rparr>"

definition count_mismatch :: "string \<times> string \<Rightarrow> eval_state \<Rightarrow> eval_state" where
  "count_mismatch key st =
     (bump (\<lambda>s. s\<lparr>mismatches := mismatches s + 1\<rparr>) (fst key) st)
       \<lparr>trace := trace st @ [(key, Mismatch)]\<rparr>"

definition compatible_rec :: "pylib \<Rightarrow> string \<times> string \<Rightarrow> string \<Rightarrow> string \<Rightarrow> pyval list list \<Rightarrow> pyval" where
  "compatible_rec l key gold_sql duck_sql got =
     PDict [(''question_id'', PStr (snd key)), (''db'', PStr (fst key)),
            (''gold_sql'', PStr gold_sql), (''duck_sql'', PStr duck_sql),
            (''answer'', PList (map PList (canonicalize_jsonable_rows l (jsonable_rows l got))))]"

definition count_correct ::
  "eval_env \<Rightarrow> eval_args \<Rightarrow> pass \<Rightarrow> string \<times> string \<Rightarrow> string \<Rightarrow> string \<Rightarrow> pyval list list
     \<Rightarrow> eval_state \<Rightarrow> eval_state" where
  "count_correct env args p key gold_sql duck_sql got st =
     (let st1 = (bump (\<lambda>s. s\<lparr>correct := correct s + 1\<rparr>) (fst key) st)
                  \<lparr>trace := trace st @ [(key, Correct)]\<rparr>
      in if record_compatible p then
           (let st2 = st1\<lparr>compatible := insert key (compatible st1)\<rparr>
            in if out_compatible args \<noteq> [] then
                 (let rec = compatible_rec (runtime env) key gold_sql duck_sql got
                  in if out_broken args then
                       (if capture_records p
                        then st2\<lparr>compatible_records := (compatible_records st2)(key \<mapsto> rec)\<rparr>
                        else st2)
                     else st2\<lparr>written := written st2 @ [rec]\<rparr>)
               else st2)
         else st1)"

text \<open>
  The second half of the loop body: transpile, rewrite, execute on DuckDB, compare.
  The expectation is the gold answer or the rows SQLite returned.
\<close>

definition run_on_duckdb ::
  "eval_env \<Rightarrow> eval_args \<Rightarrow> pass \<Rightarrow> string \<times> string \<Rightarrow> string \<Rightarrow> pyval + pyval list list
     \<Rightarrow> eval_state \<Rightarrow> py_error + eval_state" where
  "run_on_duckdb env args p key gold_sql expectation st =
     (case transpile_sql env gold_sql of
        None \<Rightarrow> Inr (count_transpile_error key st)
      | Some transpiled \<Rightarrow>
          (let duck_sql = (if rewrite args then rewrite_for_duckdb transpiled else transpiled)
           in if \<not> duck_is_file env (duckdb_root p) (fst key) then Inr (count_exec_error key st)
              else (case duck_run env (duckdb_root p) (fst key) duck_sql of
                      ConnectFails \<Rightarrow> Inl ConnectionError
                    | ExecFails \<Rightarrow> Inr (count_exec_error key st)
                    | Rows got \<Rightarrow>
                        (case (case expectation of
                                 Inl gold \<Rightarrow>
                                   if unordered args then Inr (rows_equal_unordered (runtime env) gold got)
                                   else rows_equal gold got
                               | Inr sqlite_rows \<Rightarrow>
                                   rows_equal_sqlite_duckdb (runtime env) sqlite_rows got (unordered args)) of
                           Inl e \<Rightarrow> Inl e
                         | Inr ok \<Rightarrow>
                             if ok then Inr (count_correct env args p key gold_sql duck_sql got st)
                             else Inr (count_mismatch key st)))))"

text \<open>The loop body of \<open>_evaluate\<close> for the row \<open>row\<close> at the one-based position \<open>row_idx\<close>.\<close>

definition eval_row ::
  "eval_env \<Rightarrow> eval_args \<Rightarrow> pass \<Rightarrow> string \<Rightarrow> nat \<Rightarrow> string list \<Rightarrow> eval_state
     \<Rightarrow> py_error + eval_state" where
  "eval_row env args p base row_idx row st =
     (if length row < 4 then Inr st
      else
        let db_id = strip (row ! 0); gold_sql = row ! 3 in
        if db_id = [] \<or> gold_sql = [] then Inr st
        else if only_db args \<noteq> [] \<and> db_id \<noteq> only_db args then Inr st
        else
          let qid = base @ '':'' @ show_nat row_idx; key = (db_id, qid) in
          if (case restrict_to p of None \<Rightarrow> False | Some S \<Rightarrow> key \<notin> S) then Inr st
          else if compare_to_gold args then
            (case expected env qid of
               None \<Rightarrow> Inr st
             | Some gold \<Rightarrow>
                 if gold = PNone then Inr st
                 else run_on_duckdb env args p key gold_sql (Inl gold) (count_total db_id st))
          else
            (let st1 = count_total db_id st in
             if \<not> sqlite_is_file env db_id then Inr (count_exec_error key st1)
             else (case sqlite_run env db_id gold_sql of
                     None \<Rightarrow> Inr (count_exec_error key st1)
                   | Some sqlite_rows \<Rightarrow> run_on_duckdb env args p key gold_sql (Inr sqlite_rows) st1)))"

fun eval_rows ::
  "eval_env \<Rightarrow> eval_args \<Rightarrow> pass \<Rightarrow> string \<Rightarrow> (nat \<times> string list) list \<Rightarrow> eval_state
     \<Rightarrow> py_error + eval_state" where
  "eval_rows env args p base [] st = Inr st"
| "eval_rows env args p base ((row_idx, row) # rest) st =
     (case eval_row env args p base row_idx row st of
        Inl e \<Rightarrow> Inl e
      | Inr st' \<Rightarrow> eval_rows env args p base rest st')"

definition iter_csv_rows :: "string list list \<Rightarrow> string list list" where
  "iter_csv_rows rows = filter (\<lambda>row. row \<noteq> []) rows"

definition enumerate1 :: "'a list \<Rightarrow> (nat \<times> 'a) list" where
  "enumerate1 xs = zip [1..<Suc (length xs)] xs"

text \<open>A corpus: the query files in the order of \<open>csv_paths\<close>, each its stem and its rows.\<close>

fun eval_files ::
  "eval_env \<Rightarrow> eval_args \<Rightarrow> pass \<Rightarrow> (string \<times> string list list) list \<Rightarrow> eval_state
     \<Rightarrow> py_error + eval_state" where
  "eval_files env args p [] st = Inr st"
| "eval_files env args p ((base, rows) # files) st =
     (case eval_rows env args p base (enumerate1 (iter_csv_rows rows)) st of
        Inl e \<Rightarrow> Inl e
      | Inr st' \<Rightarrow> eval_files env args p files st')"

definition init_state :: "pyval list \<Rightarrow> eval_state" where
  "init_state w = \<lparr>by_db = Map.empty, compatible = {}, compatible_records = Map.empty,
                   written = w, trace = []\<rparr>"

definition evaluate ::
  "eval_env \<Rightarrow> eval_args \<Rightarrow> pass \<Rightarrow> (string \<times> string list list) list \<Rightarrow> pyval list
     \<Rightarrow> py_error + eval_state" where
  "evaluate env args p corpus w = eval_files env args p corpus (init_state w)"

text \<open>
  The passes of \<open>main\<close>. Between the baseline pass and the pass on the databases with
  dropped columns, \<open>main\<close> loads the directive file and rewrites the databases; that step
  either ends the run with \<open>SystemExit\<close> or completes, and what it does to the databases
  shows in what \<open>duck_run\<close> answers under the second root. The result is the state of the
  baseline pass and, when they run, of the pass on the dropped databases and of the pass
  that finds the keys still correct.
\<close>

definition run_passes ::
  "eval_env \<Rightarrow> eval_args \<Rightarrow> string \<Rightarrow> string \<Rightarrow> py_error option
     \<Rightarrow> (string \<times> string list list) list
     \<Rightarrow> py_error + (eval_state \<times> eval_state option \<times> eval_state option)" where
  "run_passes env args duckdb_out_root drop_dst_root drop_step corpus =
     (if corpus = [] then Inl (SystemExit ''No query CSVs found'')
      else if out_broken args \<and> \<not> drop_columns args
      then Inl (SystemExit ''--out-broken requires --drop-columns'')
      else if out_broken args \<and> out_compatible args = []
      then Inl (SystemExit ''--out-broken requires --out-compatible'')
      else
        (case evaluate env args
                \<lparr>duckdb_root = duckdb_out_root, restrict_to = None,
                 record_compatible = (drop_columns args \<or> out_compatible args \<noteq> []),
                 capture_records = out_broken args\<rparr> corpus [] of
           Inl e \<Rightarrow> Inl e
         | Inr baseline \<Rightarrow>
             if \<not> drop_columns args then Inr (baseline, None, None)
             else (case drop_step of
                     Some e \<Rightarrow> Inl e
                   | None \<Rightarrow>
                       (case evaluate env args
                               \<lparr>duckdb_root = drop_dst_root, restrict_to = Some (compatible baseline),
                                record_compatible = False, capture_records = False\<rparr>
                               corpus (written baseline) of
                          Inl e \<Rightarrow> Inl e
                        | Inr dropped \<Rightarrow>
                            if out_broken args \<and> out_compatible args \<noteq> [] then
                              (case evaluate env args
                                      \<lparr>duckdb_root = drop_dst_root,
                                       restrict_to = Some (compatible baseline),
                                       record_compatible = True, capture_records = False\<rparr>
                                      corpus (written dropped) of
                                 Inl e \<Rightarrow> Inl e
                               | Inr still_ok \<Rightarrow> Inr (baseline, Some dropped, Some still_ok))
                            else Inr (baseline, Some dropped, None)))))"

text \<open>
  Two notions for stating what a pass did: the key a row gets, and what an outcome adds
  to the counters of a database.
\<close>

definition csv_key :: "string \<Rightarrow> nat \<Rightarrow> string list \<Rightarrow> string \<times> string" where
  "csv_key base row_idx row = (strip (row ! 0), base @ '':'' @ show_nat row_idx)"

fun tally :: "outcome \<Rightarrow> EvalStats \<Rightarrow> EvalStats" where
  "tally TranspileError s =
     s\<lparr>total := total s + 1, transpile_errors := transpile_errors s + 1, exec_errors := exec_errors s + 1\<rparr>"
| "tally ExecError s = s\<lparr>total := total s + 1, exec_errors := exec_errors s + 1\<rparr>"
| "tally Correct s = s\<lparr>total := total s + 1, correct := correct s + 1\<rparr>"
| "tally Mismatch s = s\<lparr>total := total s + 1, mismatches := mismatches s + 1\<rparr>"

definition counted_as :: "pass \<Rightarrow> string \<times> string \<Rightarrow> outcome \<Rightarrow> eval_state \<Rightarrow> eval_state \<Rightarrow> bool" where
  "counted_as p key out st st' =
     (by_db st' = (by_db st)(fst key \<mapsto> tally out (stats_of st (fst key)))
      \<and> trace st' = trace st @ [(key, out)]
      \<and> compatible st' =
          (if out = Correct \<and> record_compatible p then insert key (compatible st) else compatible st))"

definition stats_ok :: "EvalStats \<Rightarrow> bool" where
  "stats_ok s =
     (total s = correct s + mismatches s + exec_errors s \<and> transpile_errors s \<le> exec_errors s)"

definition pass_inv :: "pass \<Rightarrow> eval_state \<Rightarrow> bool" where
  "pass_inv p st =
     ((\<forall>d. stats_ok (stats_of st d))
      \<and> (\<forall>S. restrict_to p = Some S \<longrightarrow> fst ` set (trace st) \<subseteq> S)
      \<and> (record_compatible p \<longrightarrow> compatible st = {k. (k, Correct) \<in> set (trace st)})
      \<and> (\<forall>d. total (stats_of st d) = length (filter (\<lambda>e. fst (fst e) = d) (trace st))))"

subsection \<open>An example run\<close>

text \<open>
  The scenario of the specification: the query of the first row has the gold answer
  \<open>[[2014]]\<close>, the migrated database answers \<open>[[2014.0]]\<close> and the database with dropped
  columns \<open>[[2015]]\<close>. The second row is a mismatch from the start, the third is too
  short, the empty line is no row, and the last row has no gold answer.
\<close>

definition demo_corpus :: "(string \<times> string list list) list" where
  "demo_corpus =
     [(''Queries'',
       [[''db1'', ''Q1'', [], ''SELECT year FROM t''],
        [''db1'', ''Q2'', [], ''SELECT n FROM t''],
        [''db1'', ''Q3''],
        [],
        [''db1'', ''Q4'', [], ''SELECT x FROM t'']])]"

definition demo_duck_run :: "string \<Rightarrow> string \<Rightarrow> string \<Rightarrow> run_result" where
  "demo_duck_run dir db sql =
     (if sql = ''SELECT year FROM t''
      then Rows [[if dir = ''migrated'' then PFloat (Fin 2014) else PInt 2015]]
      else Rows [[PInt 2]])"

definition demo_transpile :: "string \<Rightarrow> string list option" where
  "demo_transpile sql = Some [sql]"

definition demo_env :: eval_env where
  "demo_env =
     \<lparr>runtime = ref_lib,
      expected = [''Queries:1'' \<mapsto> PList [PList [PInt 2014]], ''Queries:2'' \<mapsto> PList [PList [PInt 1]]],
      sqlglot_transpile = demo_transpile,
      sqlite_is_file = (\<lambda>db. False),
      sqlite_run = (\<lambda>db sql. None),
      duck_is_file = (\<lambda>dir db. True),
      duck_run = demo_duck_run\<rparr>"

definition demo_args :: eval_args where
  "demo_args =
     \<lparr>only_db = [], compare_to_gold = True, unordered = False, rewrite = False,
      out_broken = False, drop_columns = True, out_compatible = []\<rparr>"

definition demo_baseline_pass :: pass where
  "demo_baseline_pass =
     \<lparr>duckdb_root = ''migrated'', restrict_to = None, record_compatible = True,
      capture_records = False\<rparr>"

section \<open>Migration\<close>

text \<open>
  The files \<open>convert_sqlite_to_duckdb\<close> touches, by path. A database file is its list of
  tables, each a name and rows of cells in their textual form. Directories are not
  modelled: \<open>mkdir\<close> of the parent changes no file.
\<close>

type_synonym tables = "(string \<times> string list list) list"

datatype dbfile = SqliteFile tables | DuckFile tables | OtherFile

type_synonym fs = "string \<rightharpoonup> dbfile"

datatype migration_error = ImportFailed | AttachFailed | NotADatabase

text \<open>
  \<open>sqlite2duckdb\<close> runs in a process of its own. All the caller sees is whether it
  exited with status zero and what it left at the target path, if anything.
\<close>

type_synonym importer = "dbfile option \<Rightarrow> bool \<times> dbfile option"

definition safe_unlink :: "fs \<Rightarrow> string \<Rightarrow> fs" where
  "safe_unlink files path = files(path := None)"

text \<open>\<open>Path.stem\<close>: the last component of the path without its last suffix.\<close>

definition path_name :: "string \<Rightarrow> string" where
  "path_name path = rev (takeWhile (\<lambda>c. c \<noteq> CHR ''/'') (rev path))"

definition path_stem :: "string \<Rightarrow> string" where
  "path_stem path =
     (let n = path_name path;
          suffix = takeWhile (\<lambda>c. c \<noteq> CHR ''.'') (rev n);
          front = length n - length suffix - 1
      in if length suffix < length n \<and> suffix \<noteq> [] \<and> 0 < front then take front n else n)"

text \<open>
  \<open>_convert_sqlite_to_duckdb_with_all_varchar\<close>: connecting creates the target when it
  is missing, the tables it already has are dropped, and every table of the attached
  SQLite file is copied. The result is the files and the exception raised, if any.
\<close>

definition convert_with_all_varchar :: "fs \<Rightarrow> string \<Rightarrow> string \<Rightarrow> fs \<times> migration_error option" where
  "convert_with_all_varchar files sqlite_db duck_db =
     (case files duck_db of
        Some (SqliteFile _) \<Rightarrow> (files, Some NotADatabase)
      | Some OtherFile \<Rightarrow> (files, Some NotADatabase)
      | _ \<Rightarrow>
          (let cleared = files(duck_db \<mapsto> DuckFile [])
           in case files sqlite_db of
                Some (SqliteFile ts) \<Rightarrow> (files(duck_db \<mapsto> DuckFile ts), None)
              | _ \<Rightarrow> (cleared, Some AttachFailed)))"

text \<open>
  The \<open>try\<close> block of \<open>convert_sqlite_to_duckdb\<close>: \<open>None\<close> in the second component when
  some exception is raised, which the caller answers with the fallback.
\<close>

definition try_sqlite2duckdb :: "importer \<Rightarrow> fs \<Rightarrow> string \<Rightarrow> string \<Rightarrow> fs \<times> bool" where
  "try_sqlite2duckdb imp files sqlite_db duck_db =
     (if path_stem sqlite_db = ''european_football_2'' then (files, False)
      else
        (case imp (files sqlite_db) of
           (exit_ok, out) \<Rightarrow>
             (let files1 = (case out of None \<Rightarrow> files | Some f \<Rightarrow> files(duck_db \<mapsto> f))
              in if \<not> exit_ok then (files1, False)
                 else (case files1 duck_db of
                         Some (DuckFile ts) \<Rightarrow> (files1, length ts \<noteq> 0)
                       | _ \<Rightarrow> (files1, False)))))"

definition convert_sqlite_to_duckdb ::
  "importer \<Rightarrow> fs \<Rightarrow> string \<Rightarrow> string \<Rightarrow> bool \<Rightarrow> fs \<times> migration_error option" where
  "convert_sqlite_to_duckdb imp files sqlite_db duck_db force =
     (if files duck_db \<noteq> None \<and> \<not> force then (files, None)
      else
        (let files0 = (if files duck_db \<noteq> None then safe_unlink files duck_db else files)
         in case try_sqlite2duckdb imp files0 sqlite_db duck_db of
              (files1, True) \<Rightarrow> (files1, None)
            | (files1, False) \<Rightarrow>
                convert_with_all_varchar (safe_unlink files1 duck_db) sqlite_db duck_db))"

definition table_set :: "fs \<Rightarrow> string \<Rightarrow> string set" where
  "table_set files path =
     (case files path of Some (DuckFile ts) \<Rightarrow> set (map fst ts) | _ \<Rightarrow> {})"

subsection \<open>An example\<close>

definition demo_files :: fs where
  "demo_files = [''db/toy/toy.sqlite'' \<mapsto> SqliteFile [(''t'', [[''1'', ''a'']]), (''u'', [])]]"

definition failing_importer :: importer where
  "failing_importer src = (False, Some (DuckFile []))"

section \<open>Column references\<close>

definition upper :: "string \<Rightarrow> string" where
  "upper s = map upper_char s"

text \<open>\<open>s.strip(c)\<close> for a single character \<open>c\<close>.\<close>

definition strip_char :: "char \<Rightarrow> string \<Rightarrow> string" where
  "strip_char c s = rev (dropWhile (\<lambda>x. x = c) (rev (dropWhile (\<lambda>x. x = c) s)))"

definition not_backtick :: "char \<Rightarrow> bool" where
  "not_backtick c = (c \<noteq> CHR 0x60)"

definition word1 :: rx where
  "word1 = Seq (CharSet is_word_char) (Star (CharSet is_word_char))"

text \<open>
  \<open>PAIR_RE\<close>: a table name, a dot and a column name in back-ticks (groups 1 and 2, in
  the source \<open>table_bt\<close> and \<open>col_bt\<close>), or a table name, a dot and a plain column name
  (groups 3 and 4, \<open>table\<close> and \<open>col\<close>).
\<close>

definition PAIR_RE :: rx where
  "PAIR_RE =
     Alt (Seq (Group 1 word1)
           (Seq (Lit CHR ''.'')
             (Seq (Lit CHR 0x60)
               (Seq (Group 2 (Seq (CharSet not_backtick) (Star (CharSet not_backtick))))
                 (Lit CHR 0x60)))))
         (Seq (Group 3 word1) (Seq (Lit CHR ''.'') (Group 4 word1)))"

definition group_or :: "string \<Rightarrow> groups \<Rightarrow> nat \<Rightarrow> nat \<Rightarrow> string" where
  "group_or s g a b = (if group_text s g a \<noteq> [] then group_text s g a else group_text s g b)"

definition iter_pairs :: "string \<Rightarrow> (string \<times> string) list" where
  "iter_pairs expr =
     (case find_from False PAIR_RE expr 0 of
        [] \<Rightarrow>
          (case split_at CHR ''.'' expr of
             (table, Some col) \<Rightarrow> [(strip table, strip_char CHR 0x60 (strip col))]
           | (table, None) \<Rightarrow> [])
      | m # ms \<Rightarrow>
          concat (map (\<lambda>(i, j, g).
                    let table = strip (group_or expr g 1 3); col = strip (group_or expr g 2 4)
                    in if table \<noteq> [] \<and> col \<noteq> [] then [(table, col)] else [])
                  (m # ms)))"

section \<open>Databases\<close>

text \<open>
  A table as the mutators see it: what \<open>PRAGMA table_info\<close> and the unique indexes say,
  whether \<open>SELECT rowid\<close> works, and the rows, each with its rowid and its cells by column
  name. An \<open>UPDATE\<close> without \<open>WHERE\<close> sets one column in every row to an expression of
  the rowid.

  Whether the engine accepts an \<open>UPDATE\<close> is for the engine to say: it is a parameter,
  and answers with the text of the exception when it refuses. A refused statement
  changes nothing.
\<close>

datatype sqlval = SNull | SInt int | SReal rat | SText string | SBlob string

record ColInfo =
  name :: string
  decl_type :: string
  notnull :: bool
  pk :: bool

record sql_table =
  table_name :: string
  table_info :: "ColInfo list"
  unique_index_cols :: "string list list"
  rowid_usable :: bool
  rowid_alias :: "string option"
  table_rows :: "(int \<times> (string \<Rightarrow> sqlval)) list"

type_synonym database = "sql_table list"

datatype setexpr = SetNull | SetParam sqlval | SetRowid | SetNegRowid | SetPrintfRowid string

type_synonym engine = "sql_table \<Rightarrow> string \<Rightarrow> setexpr \<Rightarrow> string option"

text \<open>\<open>printf(fmt, rowid)\<close> for a format whose only directive is \<open>%d\<close>.\<close>

fun printf_d :: "string \<Rightarrow> int \<Rightarrow> string" where
  "printf_d [] n = []"
| "printf_d [c] n = [c]"
| "printf_d (c # d # cs) n =
     (if c = CHR ''%'' \<and> d = CHR ''d'' then show_int n @ cs else c # printf_d (d # cs) n)"

fun eval_setexpr :: "setexpr \<Rightarrow> int \<Rightarrow> sqlval" where
  "eval_setexpr SetNull rid = SNull"
| "eval_setexpr (SetParam v) rid = v"
| "eval_setexpr SetRowid rid = SInt rid"
| "eval_setexpr SetNegRowid rid = SInt (- rid)"
| "eval_setexpr (SetPrintfRowid fmt) rid = SText (printf_d fmt rid)"

text \<open>
  Writing an integer to the column that is the alias of the rowid (an \<open>INTEGER PRIMARY
  KEY\<close>) moves the row to that rowid.
\<close>

definition set_row :: "sql_table \<Rightarrow> string \<Rightarrow> setexpr \<Rightarrow> int \<times> (string \<Rightarrow> sqlval) \<Rightarrow> int \<times> (string \<Rightarrow> sqlval)" where
  "set_row t col e row =
     (let v = eval_setexpr e (fst row)
      in ((case v of SInt n \<Rightarrow> if rowid_alias t = Some col then n else fst row | _ \<Rightarrow> fst row),
          (snd row)(col := v)))"

definition set_column :: "sql_table \<Rightarrow> string \<Rightarrow> setexpr \<Rightarrow> sql_table" where
  "set_column t col e = t\<lparr>table_rows := map (set_row t col e) (table_rows t)\<rparr>"

definition exec_update :: "engine \<Rightarrow> sql_table \<Rightarrow> string \<Rightarrow> setexpr \<Rightarrow> string + sql_table" where
  "exec_update eng t col e = (case eng t col e of Some msg \<Rightarrow> Inl msg | None \<Rightarrow> Inr (set_column t col e))"

section \<open>The SQLite mutator\<close>

definition numeric_markers :: "string list" where
  "numeric_markers = [''INT'', ''REAL'', ''FLOA'', ''DOUB'', ''NUM'', ''DEC'', ''BOOL'']"

definition numeric_like :: "string \<Rightarrow> bool" where
  "numeric_like t = list_ex (\<lambda>x. contains x t) numeric_markers"

definition empty_value :: "ColInfo \<Rightarrow> sqlval" where
  "empty_value ci = (if numeric_like (upper (decl_type ci)) then SInt 0 else SText [])"

definition unique_cols :: "sql_table \<Rightarrow> string set" where
  "unique_cols t = set (map lower (filter (\<lambda>c. c \<noteq> []) (concat (unique_index_cols t))))"

definition can_use_rowid :: "sql_table \<Rightarrow> bool" where
  "can_use_rowid t = rowid_usable t"

definition dummy_expr :: "ColInfo \<Rightarrow> setexpr" where
  "dummy_expr ci =
     (let t = upper (decl_type ci)
      in if numeric_like t then (if pk ci \<and> contains ''INT'' t then SetNegRowid else SetRowid)
         else SetPrintfRowid ''__DROPPED__%d'')"

definition apply_unique_dummy :: "engine \<Rightarrow> sql_table \<Rightarrow> ColInfo \<Rightarrow> sql_table \<times> string option" where
  "apply_unique_dummy eng t col_info =
     (if \<not> can_use_rowid t then (t, Some ''no rowid available for per-row dummy update'')
      else (case exec_update eng t (name col_info) (dummy_expr col_info) of
              Inr t' \<Rightarrow> (t', None)
            | Inl msg \<Rightarrow> (t, Some msg)))"

definition apply_nullify ::
  "engine \<Rightarrow> sql_table \<Rightarrow> string \<Rightarrow> ColInfo \<Rightarrow> string set \<Rightarrow> sql_table \<times> string option" where
  "apply_nullify eng t col col_info uniq =
     (case exec_update eng t (name col_info) SetNull of
        Inr t' \<Rightarrow> (t', None)
      | Inl e \<Rightarrow>
          if notnull col_info \<and> (pk col_info \<or> lower (name col_info) \<in> uniq)
          then apply_unique_dummy eng t col_info
          else (case exec_update eng t (name col_info) (SetParam (empty_value col_info)) of
                  Inr t' \<Rightarrow> (t', None)
                | Inl e2 \<Rightarrow> (t, Some e2)))"

text \<open>The dicts \<open>_list_tables\<close> and \<open>_table_info\<close> build: a later entry replaces an earlier one.\<close>

definition is_internal_name :: "string \<Rightarrow> bool" where
  "is_internal_name n = (7 \<le> length n \<and> lower (take 6 n) = ''sqlite'')"

definition list_tables :: "database \<Rightarrow> string \<rightharpoonup> string" where
  "list_tables db =
     map_of (rev (map (\<lambda>n. (lower n, n)) (filter (\<lambda>n. \<not> is_internal_name n) (map table_name db))))"

definition table_info_map :: "sql_table \<Rightarrow> string \<rightharpoonup> ColInfo" where
  "table_info_map t = map_of (rev (map (\<lambda>c. (lower (name c), c)) (table_info t)))"

definition table_aliases :: "string \<rightharpoonup> string" where
  "table_aliases = [''fprm'' \<mapsto> ''frpm'']"

definition resolve_table_name ::
  "string \<Rightarrow> (string \<rightharpoonup> string) \<Rightarrow> (string \<rightharpoonup> string) \<Rightarrow> string option" where
  "resolve_table_name table_raw table_map aliases =
     (let t = strip_char CHR 0x60 (strip_char CHR 0x22 (strip table_raw));
          t_norm = (case aliases (lower t) of None \<Rightarrow> lower t | Some a \<Rightarrow> a)
      in table_map t_norm)"

text \<open>The counters of one run and the database as it stands.\<close>

record mutation =
  db_now :: database
  applied :: nat
  failed :: nat
  missing :: nat

definition put_table :: "sql_table \<Rightarrow> database \<Rightarrow> database" where
  "put_table t' db = map (\<lambda>t. if table_name t = table_name t' then t' else t) db"

definition nullify_pair :: "engine \<Rightarrow> string \<times> string \<Rightarrow> mutation \<Rightarrow> mutation" where
  "nullify_pair eng pair m =
     (case resolve_table_name (fst pair) (list_tables (db_now m)) table_aliases of
        None \<Rightarrow> m\<lparr>missing := missing m + 1\<rparr>
      | Some table \<Rightarrow>
          if table = [] then m\<lparr>missing := missing m + 1\<rparr>
          else
            (case find (\<lambda>t. table_name t = table) (db_now m) of
               None \<Rightarrow> m\<lparr>missing := missing m + 1\<rparr>
             | Some t \<Rightarrow>
                 (case table_info_map t (lower (snd pair)) of
                    None \<Rightarrow> m\<lparr>missing := missing m + 1\<rparr>
                  | Some ci \<Rightarrow>
                      (case apply_nullify eng t (snd pair) ci (unique_cols t) of
                         (t', None) \<Rightarrow> m\<lparr>db_now := put_table t' (db_now m), applied := applied m + 1\<rparr>
                       | (t', Some err) \<Rightarrow>
                           m\<lparr>db_now := put_table t' (db_now m), failed := failed m + 1\<rparr>))))"

definition run_mutation :: "engine \<Rightarrow> database \<Rightarrow> string list \<Rightarrow> mutation" where
  "run_mutation eng db cols =
     foldl (\<lambda>m ref. foldl (\<lambda>m pair. nullify_pair eng pair m) m (iter_pairs ref))
       \<lparr>db_now = db, applied = 0, failed = 0, missing = 0\<rparr> cols"

text \<open>\<open>process_db\<close>: the copy of the database after the run, and the code returned.\<close>

definition process_db :: "engine \<Rightarrow> database \<Rightarrow> string list \<Rightarrow> database \<times> int" where
  "process_db eng src cols =
     (let m = run_mutation eng src cols in (db_now m, if failed m = 0 then 0 else 2))"







section \<open>The DuckDB mutator\<close>

definition duck_empty_value :: "string \<Rightarrow> sqlval" where
  "duck_empty_value type_s =
     (let t = upper type_s
      in if list_ex (\<lambda>x. contains x t) (numeric_markers @ [''HUGEINT'']) then SInt 0
         else if contains ''DATE'' t then SText ''1970-01-01''
         else if contains ''TIME'' t then SText ''1970-01-01 00:00:00''
         else SText [])"

definition duck_list_tables :: "database \<Rightarrow> string \<rightharpoonup> string" where
  "duck_list_tables db = map_of (rev (map (\<lambda>n. (lower n, n)) (map table_name db)))"

definition duck_nullify_pair :: "engine \<Rightarrow> string \<times> string \<Rightarrow> mutation \<Rightarrow> mutation" where
  "duck_nullify_pair eng pair m =
     (let t0 = strip_char CHR 0x60 (strip_char CHR 0x22 (strip (fst pair)));
          t_norm = (case table_aliases (lower t0) of None \<Rightarrow> lower t0 | Some a \<Rightarrow> a)
      in case duck_list_tables (db_now m) t_norm of
           None \<Rightarrow> m\<lparr>missing := missing m + 1\<rparr>
         | Some table \<Rightarrow>
             if table = [] then m\<lparr>missing := missing m + 1\<rparr>
             else
               (case find (\<lambda>t. table_name t = table) (db_now m) of
                  None \<Rightarrow> m\<lparr>missing := missing m + 1\<rparr>
                | Some t \<Rightarrow>
                    (case table_info_map t (lower (snd pair)) of
                       None \<Rightarrow> m\<lparr>missing := missing m + 1\<rparr>
                     | Some ci \<Rightarrow>
                         (case exec_update eng t (name ci) SetNull of
                            Inr t' \<Rightarrow> m\<lparr>db_now := put_table t' (db_now m), applied := applied m + 1\<rparr>
                          | Inl e \<Rightarrow>
                              (case exec_update eng t (name ci)
                                      (SetParam (duck_empty_value (decl_type ci))) of
                                 Inr t' \<Rightarrow>
                                   m\<lparr>db_now := put_table t' (db_now m), applied := applied m + 1\<rparr>
                               | Inl e2 \<Rightarrow> m\<lparr>failed := failed m + 1\<rparr>)))))"

definition nullify_columns_in_duckdb :: "engine \<Rightarrow> database \<Rightarrow> string list \<Rightarrow> database \<times> int" where
  "nullify_columns_in_duckdb eng src cols =
     (let m = foldl (\<lambda>m ref. foldl (\<lambda>m pair. duck_nullify_pair eng pair m) m (iter_pairs ref))
                \<lparr>db_now = src, applied = 0, failed = 0, missing = 0\<rparr> cols
      in (db_now m, if failed m = 0 then 0 else 2))"

section \<open>A reference engine\<close>

text \<open>
  To run the mutators on examples, one engine: it enforces \<open>NOT NULL\<close> and uniqueness of
  a column that has a unique index or is the primary key by itself, and checks each row
  as it is written, against the rows already rewritten and the rows still to come, as
  SQLite does; the alias of the rowid takes integers only. No theorem about the mutators depends on it.
\<close>

fun sql_eq :: "sqlval \<Rightarrow> sqlval \<Rightarrow> bool" where
  "sql_eq (SInt a) (SInt b) = (a = b)"
| "sql_eq (SInt a) (SReal r) = (of_int a = r)"
| "sql_eq (SReal r) (SInt b) = (r = of_int b)"
| "sql_eq (SReal r) (SReal q) = (r = q)"
| "sql_eq (SText a) (SText b) = (a = b)"
| "sql_eq (SBlob a) (SBlob b) = (a = b)"
| "sql_eq _ _ = False"

definition single_unique :: "sql_table \<Rightarrow> string \<Rightarrow> bool" where
  "single_unique t col =
     (list_ex (\<lambda>idx. map lower idx = [lower col]) (unique_index_cols t)
      \<or> map (\<lambda>c. lower (name c)) (filter pk (table_info t)) = [lower col])"

fun rowwise_ok :: "sqlval list \<Rightarrow> (sqlval \<times> sqlval) list \<Rightarrow> bool" where
  "rowwise_ok seen [] = True"
| "rowwise_ok seen ((old, new) # rest) =
     (\<not> list_ex (sql_eq new) seen \<and> \<not> list_ex (\<lambda>(old', new'). sql_eq new old') rest
      \<and> rowwise_ok (new # seen) rest)"

definition rowwise_engine :: engine where
  "rowwise_engine t col e =
     (let news = map (\<lambda>(rid, cells). eval_setexpr e rid) (table_rows t);
          olds = map (\<lambda>(rid, cells). cells col) (table_rows t);
          must = (case find (\<lambda>c. lower (name c) = lower col) (table_info t) of
                    None \<Rightarrow> False | Some c \<Rightarrow> notnull c)
      in if must \<and> list_ex (\<lambda>v. v = SNull) news then Some ''NOT NULL constraint failed''
         else if rowid_alias t = Some col \<and> list_ex (\<lambda>v. case v of SInt n \<Rightarrow> False | _ \<Rightarrow> True) news
         then Some ''datatype mismatch''
         else if single_unique t col \<and> \<not> rowwise_ok [] (zip olds news)
         then Some ''UNIQUE constraint failed''
         else None)"

definition demo_id_col :: ColInfo where
  "demo_id_col = \<lparr>name = ''id'', decl_type = ''INTEGER'', notnull = True, pk = True\<rparr>"

definition demo_code_col :: ColInfo where
  "demo_code_col = \<lparr>name = ''code'', decl_type = ''TEXT'', notnull = True, pk = False\<rparr>"

definition demo_cells :: "int \<Rightarrow> string \<Rightarrow> string \<Rightarrow> sqlval" where
  "demo_cells i c col = (if col = ''id'' then SInt i else if col = ''code'' then SText c else SNull)"

text \<open>A table with an integer primary key and a unique text column, both \<open>NOT NULL\<close>.\<close>

definition demo_table :: sql_table where
  "demo_table =
     \<lparr>table_name = ''Items'', table_info = [demo_id_col, demo_code_col],
      unique_index_cols = [[''code'']], rowid_usable = True, rowid_alias = Some ''id'',
      table_rows = [(1, demo_cells 1 ''a''), (2, demo_cells 2 ''b'')]\<rparr>"

text \<open>The same table declared \<open>WITHOUT ROWID\<close>; the numbers of its rows are mere positions.\<close>

definition demo_table_without_rowid :: sql_table where
  "demo_table_without_rowid = demo_table\<lparr>rowid_usable := False, rowid_alias := None\<rparr>"


section \<open>Properties of scalar equivalence\<close>

lemma float_of_int_small: "\<bar>n\<bar> < 2 ^ 64 \<Longrightarrow> float_of_int n = Inr (Fin (of_int n))"
proof -
  assume a: "\<bar>n\<bar> < 2 ^ 64"
  have "(2::rat) ^ 64 < 2 ^ 1024 - 2 ^ 970" by simp
  moreover have "\<bar>of_int n :: rat\<bar> < 2 ^ 64" using a
    by (metis of_int_abs of_int_less_numeral_power_cancel_iff)
  ultimately show ?thesis by (simp add: float_of_int_def float_max_bound_def)
qed

lemmas str_eval = strip_def is_space_def isdigit_def is_digit_def int_of_str_def nat_of_digits_def
  digit_val_def startswith_minus_def float_of_str_def lower_def lower_char_def
  parse_unsigned_float_def split_at_def parse_mantissa_def valid_digitpart_def parse_exponent_def
  digits_of_def pow10_def float_of_rat_def


lemma isclose_refl: "f \<noteq> NaN \<Longrightarrow> isclose f f"
  by (cases f) simp_all




text \<open>
  Claim C3. \<open>_num\<close> does exclude booleans, so a boolean never reaches the tolerance
  test. The comparison then falls through to Python's \<open>==\<close>, and \<open>True == 1\<close>,
  \<open>False == 0\<close> hold there: \<open>scalar_equal\<close> reports the boolean equal to the number.
  Only against a numeric string does the exclusion change the answer.
\<close>

theorem bool_equals_number:
  "num (PBool True) = Inr None \<and> num (PBool False) = Inr None
   \<and> scalar_equal (PBool True) (PInt 1) = Inr True
   \<and> scalar_equal (PBool False) (PInt 0) = Inr True
   \<and> scalar_equal (PBool True) (PFloat (Fin 1)) = Inr True
   \<and> scalar_equal (PBool True) (PStr ''1'') = Inr False"
  by (simp add: scalar_equal_def bytes_tag_def float_of_int_small str_eval)

lemma py_eq_refl_dict_str:
  "py_eq (PDict [(''__type__'', PStr a), (''py_type'', PStr b), (''repr'', PStr c)])
         (PDict [(''__type__'', PStr a), (''py_type'', PStr b), (''repr'', PStr c)])"
  by simp

lemma scalar_equal_refl_fallback:
  "scalar_equal (repr_fallback lib x) (repr_fallback lib x) = Inr True"
  by (simp add: scalar_equal_def bytes_tag_def repr_fallback_def dict_get_def)

lemma scalar_equal_refl_bytes:
  "scalar_equal (jsonable_scalar lib (PBytes raw)) (jsonable_scalar lib (PBytes raw)) = Inr True"
  by (simp add: scalar_equal_def bytes_tag_def dict_get_def)

lemma num_repr_fallback: "num (repr_fallback lib x) = Inr None"
  by (simp add: repr_fallback_def)

lemma scalar_equal_refl_plain:
  assumes "num c = Inr r" and "r \<noteq> Some NaN" and "bytes_tag c = c" and "\<not> is_tuple c"
    and "py_eq c c \<or> r \<noteq> None"
  shows "scalar_equal c c = Inr True"
  using assms by (cases r) (auto simp: scalar_equal_def isclose_refl simp del: isclose.simps)

text \<open>
  Claim C6, amended. \<open>jsonable_scalar\<close> is a function of the runtime and the value, and
  \<open>scalar_equal\<close> holds between a canonical value and itself whenever the coercion of
  that value raises nothing and does not give \<open>nan\<close>.
\<close>

theorem canonical_reflexive:
  assumes "num (jsonable_scalar lib v) = Inr r" and "r \<noteq> Some NaN"
  shows "scalar_equal (jsonable_scalar lib v) (jsonable_scalar lib v) = Inr True"
proof (cases v)
  case PNone
  then show ?thesis by (simp add: scalar_equal_def)
next
  case (PBool b)
  then show ?thesis by (simp add: scalar_equal_def bytes_tag_def)
next
  case (PInt n)
  then show ?thesis using assms
    by (intro scalar_equal_refl_plain[where r=r]) (auto simp: bytes_tag_def split: sum.splits)
next
  case (PFloat f)
  then show ?thesis using assms
    by (intro scalar_equal_refl_plain[where r=r]) (auto simp: bytes_tag_def)
next
  case (PStr s)
  then show ?thesis using assms
    by (intro scalar_equal_refl_plain[where r=r]) (auto simp: bytes_tag_def)
next
  case (PDecimal f)
  then show ?thesis using assms
    by (intro scalar_equal_refl_plain[where r=r]) (auto simp: bytes_tag_def)
next
  case (PBytes raw)
  then show ?thesis using scalar_equal_refl_bytes by simp
next
  case (PObject t s i)
  then show ?thesis using assms scalar_equal_refl_fallback
    by (cases i) (auto simp: scalar_equal_refl_plain[where r=r] bytes_tag_def)
next
  case (PDict d)
  then show ?thesis using scalar_equal_refl_fallback by simp
next
  case (PList xs)
  then show ?thesis using scalar_equal_refl_fallback by simp
next
  case (PTuple xs)
  then show ?thesis using scalar_equal_refl_fallback by simp
qed

theorem canonical_reflexive_witness:
  "scalar_equal (jsonable_scalar ref_lib (PDecimal (Fin (5 / 2)))) (jsonable_scalar ref_lib (PDecimal (Fin (5 / 2)))) = Inr True
   \<and> scalar_equal (jsonable_scalar ref_lib (PBytes ''Man'')) (jsonable_scalar ref_lib (PBytes ''Man'')) = Inr True
   \<and> jsonable_scalar ref_lib (PBytes ''Man'') = PDict [(''__type__'', PStr ''bytes''), (''base64'', PStr ''TWFu'')]"
proof -
  have a: "scalar_equal (jsonable_scalar ref_lib (PDecimal (Fin (5 / 2)))) (jsonable_scalar ref_lib (PDecimal (Fin (5 / 2)))) = Inr True"
    by (rule canonical_reflexive [where r = "Some (Fin (5 / 2))"]) simp_all
  have b: "scalar_equal (jsonable_scalar ref_lib (PBytes ''Man'')) (jsonable_scalar ref_lib (PBytes ''Man'')) = Inr True"
    by (rule canonical_reflexive [where r = None]) simp_all
  have c: "jsonable_scalar ref_lib (PBytes ''Man'') = PDict [(''__type__'', PStr ''bytes''), (''base64'', PStr ''TWFu'')]"
    by (simp add: ref_lib_def ref_b64encode_def b64_char_def b64_alphabet_def)
  show ?thesis using a b c by simp
qed

text \<open>
  The float \<open>nan\<close> and the text \<open>nan\<close> are canonical values that \<open>scalar_equal\<close>
  does not relate to themselves: \<open>math.isclose\<close> answers for them, and it is false on
  \<open>nan\<close>.
\<close>

theorem canonical_nan_not_reflexive:
  "scalar_equal (jsonable_scalar ref_lib (PFloat NaN)) (jsonable_scalar ref_lib (PFloat NaN)) = Inr False
   \<and> scalar_equal (jsonable_scalar ref_lib (PStr ''nan'')) (jsonable_scalar ref_lib (PStr ''nan'')) = Inr False"
  by (simp add: scalar_equal_def bytes_tag_def str_eval)

section \<open>Properties of the unordered comparison\<close>

lemma counter_get_add:
  "counter_get (counter_add k c) j = counter_get c j + (if j = k then 1 else 0)"
  by (induction c) (auto simp: counter_get_def)

lemma counter_get_foldl:
  "counter_get (foldl (\<lambda>c k. counter_add k c) c ks) j = counter_get c j + count_list ks j"
  by (induction ks arbitrary: c) (auto simp: counter_get_add)

lemma counter_get_Counter: "counter_get (Counter ks) j = count_list ks j"
  using counter_get_foldl [of "[]" ks j] by (simp add: Counter_def counter_get_def)

lemma counter_get_absent: "j \<notin> fst ` set c \<Longrightarrow> counter_get c j = 0"
  using map_of_eq_None_iff [of c j] by (simp add: counter_get_def)

lemma counter_eq_iff: "counter_eq c d \<longleftrightarrow> (\<forall>j. counter_get c j = counter_get d j)"
proof
  assume h: "counter_eq c d"
  show "\<forall>j. counter_get c j = counter_get d j"
  proof
    fix j
    show "counter_get c j = counter_get d j"
    proof (cases "j \<in> fst ` set c \<union> fst ` set d")
      case True
      then show ?thesis using h by (auto simp: counter_eq_def list_all_iff)
    next
      case False
      then show ?thesis by (simp add: counter_get_absent)
    qed
  qed
next
  assume "\<forall>j. counter_get c j = counter_get d j"
  then show "counter_eq c d" by (simp add: counter_eq_def list_all_iff)
qed

lemma exp_rows_lists: "exp_rows (map PList es) = Some es"
  by (induction es) auto

lemma rows_equal_unordered_count:
  "rows_equal_unordered lib (PList (map PList es)) got \<longleftrightarrow>
     (\<forall>k. count_list (map (row_key lib) es) k = count_list (map (row_key lib) got) k)"
  by (simp add: rows_equal_unordered_def exp_rows_lists counter_eq_iff rows_as_counter_def
      counter_get_Counter)

lemma count_list_mset: "count_list xs k = count (mset xs) k"
  by (induction xs) auto

lemma rows_equal_unordered_mset:
  "rows_equal_unordered lib (PList (map PList es)) got \<longleftrightarrow>
     mset (map (row_key lib) es) = mset (map (row_key lib) got)"
  by (simp add: rows_equal_unordered_count count_list_mset multiset_eq_iff)

text \<open>
  Claim C7. On a result set (a list of lists) \<open>rows_equal_unordered\<close> is equality of
  the multisets of row keys: it holds exactly when every key occurs equally often on
  both sides, and it does not change when the rows of either side are permuted.
\<close>

theorem rows_equal_unordered_multiset:
  "(rows_equal_unordered lib (PList (map PList es)) got \<longleftrightarrow>
      mset (map (row_key lib) es) = mset (map (row_key lib) got))
   \<and> (rows_equal_unordered lib (PList (map PList es)) got \<longleftrightarrow>
      (\<forall>k. count_list (map (row_key lib) es) k = count_list (map (row_key lib) got) k))
   \<and> (\<forall>es' got'. mset es' = mset es \<and> mset got' = mset got \<longrightarrow>
        rows_equal_unordered lib (PList (map PList es')) got'
        = rows_equal_unordered lib (PList (map PList es)) got)"
proof -
  have "\<And>es' got'. mset es' = mset es \<Longrightarrow> mset got' = mset got \<Longrightarrow>
        rows_equal_unordered lib (PList (map PList es')) got'
        = rows_equal_unordered lib (PList (map PList es)) got"
  proof -
    fix es' got'
    assume a: "mset es' = mset es" and b: "mset got' = mset got"
    have "mset (map (row_key lib) es') = mset (map (row_key lib) es)"
      using a by (metis mset_map)
    moreover have "mset (map (row_key lib) got') = mset (map (row_key lib) got)"
      using b by (metis mset_map)
    ultimately show "rows_equal_unordered lib (PList (map PList es')) got'
        = rows_equal_unordered lib (PList (map PList es)) got"
      by (simp add: rows_equal_unordered_mset)
  qed
  then show ?thesis
    using rows_equal_unordered_mset rows_equal_unordered_count by blast
qed

lemma ref_row_key_int: "row_key ref_lib [PInt 1] = ''[1]''" "row_key ref_lib [PInt 2] = ''[2]''"
  by code_simp+

theorem rows_equal_unordered_multiset_witness:
  "rows_equal_unordered ref_lib (PList [PList [PInt 1], PList [PInt 2], PList [PInt 1]])
      [[PInt 1], [PInt 1], [PInt 2]]
   \<and> \<not> rows_equal_unordered ref_lib (PList [PList [PInt 1], PList [PInt 2], PList [PInt 1]])
      [[PInt 1], [PInt 2], [PInt 2]]
   \<and> rows_equal_unordered ref_lib (PList [PList [PInt 2], PList [PInt 1], PList [PInt 1]])
      [[PInt 2], [PInt 1], [PInt 1]]"
proof -
  have t: "rows_equal_unordered ref_lib (PList (map PList es)) got \<longleftrightarrow>
      mset (map (row_key ref_lib) es) = mset (map (row_key ref_lib) got)" for es got
    using rows_equal_unordered_multiset [of ref_lib es got] by blast
  have a: "rows_equal_unordered ref_lib (PList (map PList [[PInt 1], [PInt 2], [PInt 1]]))
      [[PInt 1], [PInt 1], [PInt 2]]"
    unfolding t by (simp add: ref_row_key_int)
  have b: "\<not> rows_equal_unordered ref_lib (PList (map PList [[PInt 1], [PInt 2], [PInt 1]]))
      [[PInt 1], [PInt 2], [PInt 2]]"
    unfolding t by (simp add: ref_row_key_int)
  have c: "rows_equal_unordered ref_lib (PList (map PList [[PInt 2], [PInt 1], [PInt 1]]))
      [[PInt 2], [PInt 1], [PInt 1]]"
    unfolding t by (simp add: ref_row_key_int)
  show ?thesis using a b c by simp
qed

section \<open>Properties of the rewrites\<close>

text \<open>
  Claim C4. The three templates written with a doubled backslash put a literal
  backslash and digit into the output instead of the text of the group: the table
  qualifier of the projected column and of the birthday reference is lost, and so is
  the \<open>CURRENT_TIMESTAMP\<close> token. The output is not valid SQL.
\<close>

theorem rewrite_drops_group_text:
  "rewrite_for_duckdb ''SELECT t1.player_name''
     = ''SELECT ANY_VALUE('' @ [bs] @ ''1player_name) AS player_name''
   \<and> rewrite_for_duckdb ''SELECT teamInfo.team_long_name''
     = ''SELECT ANY_VALUE('' @ [bs] @ ''1team_long_name) AS team_long_name''
   \<and> rewrite_for_duckdb ''CURRENT_TIMESTAMP - t2.birthday''
     = [bs] @ ''1 - CAST('' @ [bs] @ ''2birthday AS TIMESTAMP)''"
  by code_simp

text \<open>
  The year rule, whose template has a single backslash, does put the text of its
  group back.
\<close>

lemma rewrite_strftime_keeps_group_text:
  "rewrite_for_duckdb (''1 - STRFTIME(b, '' @ [apostrophe] @ ''%Y'' @ [apostrophe] @ '')'')
     = ''1 - CAST(STRFTIME(b, '' @ [apostrophe] @ ''%Y'' @ [apostrophe] @ '') AS INTEGER)''"
  by code_simp

section \<open>Properties of the evaluation harness\<close>

lemma stats_of_count_total [simp]:
  "stats_of (count_total db st) d =
     (if d = db then (stats_of st db)\<lparr>total := total (stats_of st db) + 1\<rparr> else stats_of st d)"
  by (simp add: count_total_def bump_def stats_of_def)

lemma by_db_count_total:
  "by_db (count_total db st) = (by_db st)(db \<mapsto> (stats_of st db)\<lparr>total := total (stats_of st db) + 1\<rparr>)"
  by (simp add: count_total_def bump_def)

lemma other_count_total [simp]:
  "trace (count_total db st) = trace st" "compatible (count_total db st) = compatible st"
  by (simp_all add: count_total_def bump_def)

lemma run_on_duckdb_effect:
  assumes "run_on_duckdb env args p key gold_sql ex (count_total (fst key) st) = Inr st'"
  shows "\<exists>out. counted_as p key out st st'"
proof -
  have te: "counted_as p key TranspileError st (count_transpile_error key (count_total (fst key) st))"
    by (simp add: counted_as_def count_transpile_error_def bump_def by_db_count_total)
  have ee: "counted_as p key ExecError st (count_exec_error key (count_total (fst key) st))"
    by (simp add: counted_as_def count_exec_error_def bump_def by_db_count_total)
  have mm: "counted_as p key Mismatch st (count_mismatch key (count_total (fst key) st))"
    by (simp add: counted_as_def count_mismatch_def bump_def by_db_count_total)
  have cc: "counted_as p key Correct st
              (count_correct env args p key gold_sql d got (count_total (fst key) st))" for d got
    by (simp add: counted_as_def count_correct_def bump_def by_db_count_total Let_def)
  show ?thesis
    using assms te ee mm cc unfolding run_on_duckdb_def Let_def
    by (auto split: option.splits if_splits run_result.splits sum.splits)
qed

lemma eval_row_effect:
  assumes "eval_row env args p base i row st = Inr st'"
  shows "st' = st \<or>
         ((\<forall>S. restrict_to p = Some S \<longrightarrow> csv_key base i row \<in> S)
          \<and> (\<exists>out. counted_as p (csv_key base i row) out st st'))"
proof -
  have ee: "counted_as p key ExecError st (count_exec_error key (count_total (fst key) st))" for key
    by (simp add: counted_as_def count_exec_error_def bump_def by_db_count_total)
  have r: "run_on_duckdb env args p (csv_key base i row) g ex
             (count_total (strip (row ! 0)) st) = Inr st'
           \<Longrightarrow> \<exists>out. counted_as p (csv_key base i row) out st st'" for g ex
    using run_on_duckdb_effect [of env args p "csv_key base i row" g ex st st']
    by (simp add: csv_key_def)
  show ?thesis
    using assms ee [of "csv_key base i row"] r unfolding eval_row_def Let_def
    by (auto simp: csv_key_def split: option.splits if_splits)
qed

lemma stats_ok_tally: "stats_ok s \<Longrightarrow> stats_ok (tally out s)"
  by (cases out) (simp_all add: stats_ok_def)

lemma total_tally: "total (tally out s) = total s + 1"
  by (cases out) simp_all

lemma stats_of_counted:
  "counted_as p key out st st' \<Longrightarrow>
     stats_of st' d = (if d = fst key then tally out (stats_of st (fst key)) else stats_of st d)"
  by (simp add: counted_as_def stats_of_def)

lemma pass_inv_init: "pass_inv p (init_state w)"
  by (simp add: pass_inv_def init_state_def stats_of_def stats_ok_def EvalStats0_def)

lemma pass_inv_counted:
  assumes c: "counted_as p key out st st'" and r: "\<forall>S. restrict_to p = Some S \<longrightarrow> key \<in> S"
    and i: "pass_inv p st"
  shows "pass_inv p st'"
proof -
  have t: "trace st' = trace st @ [(key, out)]" using c by (simp add: counted_as_def)
  have a: "\<forall>d. stats_ok (stats_of st' d)"
    using i by (simp add: stats_of_counted [OF c] pass_inv_def stats_ok_tally)
  have b: "\<forall>S. restrict_to p = Some S \<longrightarrow> fst ` set (trace st') \<subseteq> S"
    using i r by (auto simp: t pass_inv_def)
  have d: "record_compatible p \<longrightarrow> compatible st' = {k. (k, Correct) \<in> set (trace st')}"
    using i c by (auto simp: t pass_inv_def counted_as_def)
  have e: "\<forall>d. total (stats_of st' d) = length (filter (\<lambda>e. fst (fst e) = d) (trace st'))"
    using i by (simp add: stats_of_counted [OF c] pass_inv_def total_tally t)
  show ?thesis using a b d e by (simp add: pass_inv_def)
qed

lemma pass_inv_eval_row:
  "eval_row env args p base i row st = Inr st' \<Longrightarrow> pass_inv p st \<Longrightarrow> pass_inv p st'"
  using eval_row_effect [of env args p base i row st st'] pass_inv_counted by blast

lemma pass_inv_eval_rows:
  "eval_rows env args p base rs st = Inr st' \<Longrightarrow> pass_inv p st \<Longrightarrow> pass_inv p st'"
proof (induction rs arbitrary: st)
  case Nil
  then show ?case by simp
next
  case (Cons r rs)
  obtain i row where r: "r = (i, row)" by (cases r)
  from Cons.prems(1) obtain st1 where s1: "eval_row env args p base i row st = Inr st1"
    and s2: "eval_rows env args p base rs st1 = Inr st'"
    by (auto simp: r split: sum.splits)
  from pass_inv_eval_row [OF s1 Cons.prems(2)] Cons.IH [OF s2] show ?case by blast
qed

lemma pass_inv_eval_files:
  "eval_files env args p files st = Inr st' \<Longrightarrow> pass_inv p st \<Longrightarrow> pass_inv p st'"
proof (induction files arbitrary: st)
  case Nil
  then show ?case by simp
next
  case (Cons f files)
  obtain base rows where f: "f = (base, rows)" by (cases f)
  from Cons.prems(1) obtain st1
    where s1: "eval_rows env args p base (enumerate1 (iter_csv_rows rows)) st = Inr st1"
    and s2: "eval_files env args p files st1 = Inr st'"
    by (auto simp: f split: sum.splits)
  from pass_inv_eval_rows [OF s1 Cons.prems(2)] Cons.IH [OF s2] show ?case by blast
qed

lemma pass_inv_evaluate: "evaluate env args p corpus w = Inr st \<Longrightarrow> pass_inv p st"
  unfolding evaluate_def using pass_inv_eval_files pass_inv_init by blast

lemma eval_row_skips:
  assumes "length row < 4
           \<or> (\<exists>S. restrict_to p = Some S \<and> csv_key base i row \<notin> S)
           \<or> (compare_to_gold args \<and> expected env (snd (csv_key base i row)) = None)"
  shows "eval_row env args p base i row st = Inr st"
  using assms unfolding eval_row_def Let_def csv_key_def by auto


lemma show_nat_digits:
  "show_nat (Suc 0) = ''1''" "show_nat 1 = ''1''" "show_nat 2 = ''2''" "show_nat 3 = ''3''"
  "show_nat 4 = ''4''"
  by (simp_all add: show_nat.simps digit_char_def)

lemma demo_rows:
  "enumerate1 (iter_csv_rows
       [[''db1'', ''Q1'', [], ''SELECT year FROM t''],
        [''db1'', ''Q2'', [], ''SELECT n FROM t''],
        [''db1'', ''Q3''],
        [],
        [''db1'', ''Q4'', [], ''SELECT x FROM t'']])
   = [(1, [''db1'', ''Q1'', [], ''SELECT year FROM t'']),
      (2, [''db1'', ''Q2'', [], ''SELECT n FROM t'']),
      (3, [''db1'', ''Q3'']),
      (4, [''db1'', ''Q4'', [], ''SELECT x FROM t''])]"
  by (simp add: enumerate1_def iter_csv_rows_def upt_rec)

lemma demo_compare:
  "rows_equal (PList [PList [PInt 2014]]) [[PFloat (Fin 2014)]] = Inr True"
  "rows_equal (PList [PList [PInt 2014]]) [[PInt 2015]] = Inr False"
  "rows_equal (PList [PList [PInt 1]]) [[PInt 2]] = Inr False"
  by (simp_all add: rows_equal_def scalar_equal_def bytes_tag_def float_of_int_small tol_def)

lemma demo_strip: "strip ''db1'' = ''db1''"
  by (simp add: strip_def is_space_def)

lemmas demo_eval = demo_corpus_def demo_env_def demo_args_def
  demo_duck_run_def demo_transpile_def evaluate_def init_state_def demo_rows
  eval_row_def run_on_duckdb_def transpile_sql_def demo_compare demo_strip show_nat_digits
  count_total_def count_exec_error_def count_transpile_error_def count_mismatch_def
  count_correct_def bump_def stats_of_def EvalStats0_def Let_def

lemma demo_baseline:
  "\<exists>st. evaluate demo_env demo_args demo_baseline_pass demo_corpus [] = Inr st
      \<and> by_db st ''db1'' =
          Some \<lparr>total = 2, correct = 1, exec_errors = 0, transpile_errors = 0, mismatches = 1\<rparr>
      \<and> trace st = [((''db1'', ''Queries:1''), Correct), ((''db1'', ''Queries:2''), Mismatch)]
      \<and> compatible st = {(''db1'', ''Queries:1'')}
      \<and> written st = []"
  by (simp add: demo_eval demo_baseline_pass_def)

lemma demo_dropped:
  "\<exists>st. evaluate demo_env demo_args
           \<lparr>duckdb_root = ''dropped'', restrict_to = Some {(''db1'', ''Queries:1'')},
            record_compatible = False, capture_records = False\<rparr> demo_corpus [] = Inr st
      \<and> by_db st ''db1'' =
          Some \<lparr>total = 1, correct = 0, exec_errors = 0, transpile_errors = 0, mismatches = 1\<rparr>
      \<and> trace st = [((''db1'', ''Queries:1''), Mismatch)]"
  by (simp add: demo_eval)


text \<open>
  Claim C2. When the pass on the databases with dropped columns runs, the keys of the
  rows it counts all lie in the set of keys the baseline pass counted as correct, which is
  the set it is restricted to; the same holds for the pass that looks for the keys still
  correct. A row whose key is outside that set leaves the state of the pass untouched.
  Every count of \<open>total\<close> belongs to a row of the trace.
\<close>

theorem second_pass_within_compatible:
  assumes "run_passes env args root1 root2 drop_step corpus = Inr (baseline, Some dropped, still)"
  shows "fst ` set (trace dropped) \<subseteq> compatible baseline
       \<and> compatible baseline = {k. (k, Correct) \<in> set (trace baseline)}
       \<and> (\<forall>d. total (stats_of dropped d) = length (filter (\<lambda>e. fst (fst e) = d) (trace dropped)))
       \<and> (\<forall>s. still = Some s \<longrightarrow> fst ` set (trace s) \<subseteq> compatible baseline)
       \<and> (\<forall>base i row st. csv_key base i row \<notin> compatible baseline \<longrightarrow>
            eval_row env args
              \<lparr>duckdb_root = root2, restrict_to = Some (compatible baseline),
               record_compatible = False, capture_records = False\<rparr> base i row st = Inr st)"
proof -
  let ?p1 = "\<lparr>duckdb_root = root1, restrict_to = None,
              record_compatible = (drop_columns args \<or> out_compatible args \<noteq> []),
              capture_records = out_broken args\<rparr>"
  let ?p2 = "\<lparr>duckdb_root = root2, restrict_to = Some (compatible baseline),
              record_compatible = False, capture_records = False\<rparr>"
  let ?p3 = "\<lparr>duckdb_root = root2, restrict_to = Some (compatible baseline),
              record_compatible = True, capture_records = False\<rparr>"
  from assms have dc: "drop_columns args"
    unfolding run_passes_def by (auto split: if_splits sum.splits option.splits)
  from assms have e1: "evaluate env args ?p1 corpus [] = Inr baseline"
    unfolding run_passes_def by (auto split: if_splits sum.splits option.splits)
  from assms have e2: "evaluate env args ?p2 corpus (written baseline) = Inr dropped"
    unfolding run_passes_def by (auto split: if_splits sum.splits option.splits)
  have e3: "evaluate env args ?p3 corpus (written dropped) = Inr s" if "still = Some s" for s
    using assms that unfolding run_passes_def
    by (auto split: if_splits sum.splits option.splits)
  have a: "compatible baseline = {k. (k, Correct) \<in> set (trace baseline)}"
    using pass_inv_evaluate [OF e1] dc by (simp add: pass_inv_def)
  have b: "fst ` set (trace dropped) \<subseteq> compatible baseline"
    using pass_inv_evaluate [OF e2] by (simp add: pass_inv_def)
  have c: "\<forall>d. total (stats_of dropped d) = length (filter (\<lambda>e. fst (fst e) = d) (trace dropped))"
    using pass_inv_evaluate [OF e2] by (simp add: pass_inv_def)
  have d: "\<forall>s. still = Some s \<longrightarrow> fst ` set (trace s) \<subseteq> compatible baseline"
    using pass_inv_evaluate [OF e3] by (simp add: pass_inv_def)
  have e: "\<forall>base i row st. csv_key base i row \<notin> compatible baseline \<longrightarrow>
            eval_row env args ?p2 base i row st = Inr st"
    using eval_row_skips [of _ ?p2] by simp
  show ?thesis using a b c d e by blast
qed

theorem second_pass_within_compatible_witness:
  "\<exists>baseline dropped.
      run_passes demo_env demo_args ''migrated'' ''dropped'' None demo_corpus
        = Inr (baseline, Some dropped, None)
      \<and> compatible baseline = {(''db1'', ''Queries:1'')}
      \<and> trace baseline = [((''db1'', ''Queries:1''), Correct), ((''db1'', ''Queries:2''), Mismatch)]
      \<and> trace dropped = [((''db1'', ''Queries:1''), Mismatch)]
      \<and> fst ` set (trace dropped) \<subseteq> compatible baseline"
proof -
  from demo_baseline obtain b
    where e1: "evaluate demo_env demo_args demo_baseline_pass demo_corpus [] = Inr b"
      and c: "compatible b = {(''db1'', ''Queries:1'')}"
      and t: "trace b = [((''db1'', ''Queries:1''), Correct), ((''db1'', ''Queries:2''), Mismatch)]"
      and w: "written b = []"
    by blast
  from demo_dropped obtain d
    where e2: "evaluate demo_env demo_args
           \<lparr>duckdb_root = ''dropped'', restrict_to = Some {(''db1'', ''Queries:1'')},
            record_compatible = False, capture_records = False\<rparr> demo_corpus [] = Inr d"
      and td: "trace d = [((''db1'', ''Queries:1''), Mismatch)]"
    by blast
  have p1: "\<lparr>duckdb_root = ''migrated'', restrict_to = None,
             record_compatible = (drop_columns demo_args \<or> out_compatible demo_args \<noteq> []),
             capture_records = out_broken demo_args\<rparr> = demo_baseline_pass"
    by (simp add: demo_baseline_pass_def demo_args_def)
  have r: "run_passes demo_env demo_args ''migrated'' ''dropped'' None demo_corpus
        = Inr (b, Some d, None)"
    unfolding run_passes_def p1 using e1 e2 c w by (simp add: demo_args_def demo_corpus_def)
  from second_pass_within_compatible [OF r]
  have "fst ` set (trace d) \<subseteq> compatible b" by blast
  then show ?thesis using r c t td by blast
qed

section \<open>Properties of the migration\<close>

lemma convert_existing_noop:
  "files duck_db \<noteq> None \<Longrightarrow> convert_sqlite_to_duckdb imp files sqlite_db duck_db False = (files, None)"
  by (simp add: convert_sqlite_to_duckdb_def)

lemma convert_with_all_varchar_exists:
  "convert_with_all_varchar files sqlite_db duck_db = (files', None) \<Longrightarrow> files' duck_db \<noteq> None"
  by (auto simp: convert_with_all_varchar_def Let_def split: option.splits dbfile.splits)

lemma try_sqlite2duckdb_exists:
  "try_sqlite2duckdb imp files sqlite_db duck_db = (files', True) \<Longrightarrow> files' duck_db \<noteq> None"
  by (auto simp: try_sqlite2duckdb_def Let_def split: if_splits prod.splits option.splits dbfile.splits)

lemma convert_success_exists:
  assumes "convert_sqlite_to_duckdb imp files sqlite_db duck_db force = (files', None)"
  shows "files' duck_db \<noteq> None"
  using assms unfolding convert_sqlite_to_duckdb_def Let_def
  by (auto split: if_splits prod.splits bool.splits
      dest: try_sqlite2duckdb_exists convert_with_all_varchar_exists)

text \<open>
  Claim C8. With the target present and overwrite not forced the call returns the files as
  they are. A call that succeeds leaves the target present, so a following call without
  force changes nothing: the target keeps its content and its table set.
\<close>

theorem migrate_idempotent:
  "(files duck_db \<noteq> None \<longrightarrow>
      convert_sqlite_to_duckdb imp files sqlite_db duck_db False = (files, None))
   \<and> (convert_sqlite_to_duckdb imp files sqlite_db duck_db force = (files', None) \<longrightarrow>
        convert_sqlite_to_duckdb imp' files' sqlite_db duck_db False = (files', None)
        \<and> table_set (fst (convert_sqlite_to_duckdb imp' files' sqlite_db duck_db False)) duck_db
            = table_set files' duck_db)"
  using convert_existing_noop convert_success_exists by (metis fst_conv)

lemma demo_migration:
  "\<exists>files'. convert_sqlite_to_duckdb failing_importer demo_files ''db/toy/toy.sqlite'' ''out/toy.duckdb'' False
              = (files', None)
     \<and> files' ''out/toy.duckdb'' = Some (DuckFile [(''t'', [[''1'', ''a'']]), (''u'', [])])"
  by (simp add: convert_sqlite_to_duckdb_def try_sqlite2duckdb_def failing_importer_def
      demo_files_def convert_with_all_varchar_def safe_unlink_def path_stem_def path_name_def Let_def)

theorem migrate_idempotent_witness:
  "\<exists>files'. convert_sqlite_to_duckdb failing_importer demo_files ''db/toy/toy.sqlite'' ''out/toy.duckdb'' False
              = (files', None)
     \<and> files' ''out/toy.duckdb'' \<noteq> None
     \<and> convert_sqlite_to_duckdb failing_importer files' ''db/toy/toy.sqlite'' ''out/toy.duckdb'' False
              = (files', None)
     \<and> table_set files' ''out/toy.duckdb'' = {''t'', ''u''}"
proof -
  from demo_migration obtain files'
    where c: "convert_sqlite_to_duckdb failing_importer demo_files ''db/toy/toy.sqlite'' ''out/toy.duckdb'' False
              = (files', None)"
      and f: "files' ''out/toy.duckdb'' = Some (DuckFile [(''t'', [[''1'', ''a'']]), (''u'', [])])"
    by blast
  from migrate_idempotent [where files = demo_files and duck_db = "''out/toy.duckdb''"
      and imp = failing_importer and sqlite_db = "''db/toy/toy.sqlite''" and force = False
      and files' = files' and imp' = failing_importer] c f
  have "convert_sqlite_to_duckdb failing_importer files' ''db/toy/toy.sqlite'' ''out/toy.duckdb'' False
              = (files', None)"
    by simp
  then show ?thesis using c f by (auto simp: table_set_def)
qed

section \<open>Properties of the mutators\<close>













lemma nullify_pair_resolved:
  assumes "resolve_table_name (fst pair) (list_tables (db_now m)) table_aliases = Some (table_name t)"
    and "table_name t \<noteq> []"
    and "find (\<lambda>u. table_name u = table_name t) (db_now m) = Some t"
    and "table_info_map t (lower (snd pair)) = Some ci"
    and "apply_nullify eng t (snd pair) ci (unique_cols t) = (t', err)"
  shows "nullify_pair eng pair m =
           (if err = None then m\<lparr>db_now := put_table t' (db_now m), applied := applied m + 1\<rparr>
            else m\<lparr>db_now := put_table t' (db_now m), failed := failed m + 1\<rparr>)"
  using assms by (auto simp: nullify_pair_def split: option.splits)

lemma iter_pairs_items_id: "iter_pairs ''Items.id'' = [(''Items'', ''id'')]"
  by code_simp

lemmas mutator_eval = demo_table_def demo_table_without_rowid_def demo_id_col_def demo_code_col_def
  demo_cells_def rowwise_engine_def single_unique_def lower_def lower_char_def upper_def
  upper_char_def numeric_like_def numeric_markers_def dummy_expr_def can_use_rowid_def
  unique_cols_def Let_def







text \<open>
  The DuckDB mutator has no per-row path. On the table above (with its rowid) the SQLite
  mutator succeeds; the DuckDB mutator, after \<open>NULL\<close> is refused, tries the one shared
  value, which a unique column with two rows cannot take, and counts the column as
  failed.
\<close>

lemma duckdb_mutator_shared_value_only:
  "snd (process_db rowwise_engine [demo_table] [''Items.id'']) = 0
   \<and> snd (nullify_columns_in_duckdb rowwise_engine [demo_table] [''Items.id'']) = 2"
  by (simp add: process_db_def run_mutation_def nullify_columns_in_duckdb_def duck_nullify_pair_def
      duck_list_tables_def duck_empty_value_def iter_pairs_items_id nullify_pair_def
      resolve_table_name_def list_tables_def is_internal_name_def table_aliases_def strip_def
      strip_char_def is_space_def table_info_map_def apply_nullify_def apply_unique_dummy_def
      exec_update_def put_table_def set_column_def set_row_def mutator_eval)










end
